theory Spec2Isabelle
  imports Complex_Main
begin

section \<open>Data model\<close>

text \<open>
  The program is a Streamlit page (\<^verbatim>\<open>src/main.py\<close>) that drives a hosted video service
  through the TwelveLabs client. Everything the page does is an effect: calls to the
  service, writes to the page, writes to the session store. The embedding makes the
  effects explicit: every function takes the application state and returns it updated,
  and every call that can raise returns a sum whose left injection is the exception.

  Python strings are modelled as \<open>string\<close>; the one non-ASCII character of the source
  (the dash of the user-facing message) is written as the three bytes of its UTF-8
  encoding.
\<close>

text \<open>
  An exception is its class name and the text \<^verbatim>\<open>str(e)\<close> that an f-string prints for it.
  Only subclasses of \<^verbatim>\<open>Exception\<close> are modelled, so \<^verbatim>\<open>except Exception\<close> catches every
  value of this type; \<^verbatim>\<open>except RuntimeError\<close> catches the ones whose class is
  \<^verbatim>\<open>RuntimeError\<close>.
\<close>

datatype exn = Exn (exn_class: string) (exn_msg: string)

definition RuntimeError :: "string \<Rightarrow> exn" where
  "RuntimeError m = Exn ''RuntimeError'' m"

definition is_RuntimeError :: "exn \<Rightarrow> bool" where
  "is_RuntimeError e = (exn_class e = ''RuntimeError'')"

record client =
  api_key :: string

record model_cfg =
  model_name :: string
  model_options :: "string list"

text \<open>The created index, with the two attributes the page reads: \<^verbatim>\<open>id\<close> and \<^verbatim>\<open>name\<close>.\<close>

record tl_index =
  idx_id :: string
  idx_name :: string

text \<open>The task object, with the attributes the page reads: \<^verbatim>\<open>status\<close> and \<^verbatim>\<open>video_id\<close>.\<close>

record task =
  task_id :: string
  task_status :: string
  task_video_id :: string

text \<open>The result of a generation request; the page reads its \<^verbatim>\<open>data\<close> attribute.\<close>

record gen_result =
  gen_data :: string

record uploaded_file =
  file_name :: string
  file_data :: string

text \<open>
  The world outside the program: the secrets store, the clock, and the replies of the
  hosted service to each call of the client. \<open>task_polls\<close> is the sequence of replies to
  the successive status retrievals of the task; \<open>is_terminal\<close> says which status labels
  the service treats as terminal.
\<close>

record remote =
  secrets :: "string \<rightharpoonup> string"
  time_time :: real
  twelvelabs_new :: "string \<Rightarrow> exn + client"
  index_create :: "client \<Rightarrow> string \<Rightarrow> model_cfg list \<Rightarrow> string list \<Rightarrow> exn + tl_index"
  task_create :: "client \<Rightarrow> string \<Rightarrow> uploaded_file \<Rightarrow> exn + task"
  task_polls :: "(exn + task) list"
  is_terminal :: "string \<Rightarrow> bool"
  generate_text :: "client \<Rightarrow> string \<Rightarrow> string \<Rightarrow> rat \<Rightarrow> exn + gen_result"

text \<open>
  The effects of a run, in the order they happen: each call of the service with its
  reply, each sleep of the polling loop, each write to the status placeholder, and each
  spinner shown.
\<close>

datatype event =
    SecretRead string "string option"
  | ClientNew string "exn + client"
  | IndexCreate string "model_cfg list" "string list" "exn + tl_index"
  | TaskCreate string uploaded_file "exn + task"
  | Sleep int
  | TaskRetrieve "exn + task"
  | PlaceholderWrite nat string
  | GenerateText string string rat "exn + gen_result"
  | Spinner string

text \<open>The elements of the rendered page. A placeholder holds at most one text.\<close>

datatype ui_elem =
    Title string
  | Write string
  | TextArea string string
  | FileUploader string
  | Button string
  | Success string
  | Error string
  | Placeholder "string option"

text \<open>
  The session store maps a key to its value, which may be Python's \<^verbatim>\<open>None\<close>: a key that
  is absent is \<open>None\<close>, a key bound to \<^verbatim>\<open>None\<close> is \<open>Some None\<close>.
\<close>

type_synonym session = "string \<rightharpoonup> string option"

record app_state =
  trace :: "event list"
  ui :: "ui_elem list"
  session_state :: session

record inputs =
  prompt_text :: string
  uploaded :: "uploaded_file option"
  analyze_clicked :: bool

section \<open>Page primitives\<close>

definition log_event :: "event \<Rightarrow> app_state \<Rightarrow> app_state" where
  "log_event e s = s\<lparr>trace := trace s @ [e]\<rparr>"

definition st_emit :: "ui_elem \<Rightarrow> app_state \<Rightarrow> app_state" where
  "st_emit x s = s\<lparr>ui := ui s @ [x]\<rparr>"

definition st_title :: "string \<Rightarrow> app_state \<Rightarrow> app_state" where
  "st_title m = st_emit (Title m)"

definition st_write :: "string \<Rightarrow> app_state \<Rightarrow> app_state" where
  "st_write m = st_emit (Write m)"

definition st_success :: "string \<Rightarrow> app_state \<Rightarrow> app_state" where
  "st_success m = st_emit (Success m)"

definition st_error :: "string \<Rightarrow> app_state \<Rightarrow> app_state" where
  "st_error m = st_emit (Error m)"

text \<open>A spinner is shown while its block runs and leaves nothing on the page.\<close>

definition st_spinner :: "string \<Rightarrow> app_state \<Rightarrow> app_state" where
  "st_spinner m = log_event (Spinner m)"

text \<open>\<^verbatim>\<open>st.empty()\<close> adds an empty placeholder to the page and returns a handle to it.\<close>

definition st_empty :: "app_state \<Rightarrow> nat \<times> app_state" where
  "st_empty s = (length (ui s), st_emit (Placeholder None) s)"

text \<open>Writing to a placeholder replaces what it shows.\<close>

definition placeholder_write :: "nat \<Rightarrow> string \<Rightarrow> app_state \<Rightarrow> app_state" where
  "placeholder_write p m s =
     (log_event (PlaceholderWrite p m) s)\<lparr>ui := (ui s)[p := Placeholder (Some m)]\<rparr>"

section \<open>Python's \<^verbatim>\<open>int\<close> and \<^verbatim>\<open>str\<close>\<close>

text \<open>\<^verbatim>\<open>int(x)\<close> of a float truncates towards zero.\<close>

definition py_int :: "real \<Rightarrow> int" where
  "py_int x = (if 0 \<le> x then \<lfloor>x\<rfloor> else \<lceil>x\<rceil>)"

definition digit_char :: "nat \<Rightarrow> char" where
  "digit_char d = ''0123456789'' ! d"

fun digits :: "nat \<Rightarrow> string" where
  "digits n = (if n < 10 then [digit_char n] else digits (n div 10) @ [digit_char (n mod 10)])"

declare digits.simps [simp del]

text \<open>\<^verbatim>\<open>str(i)\<close> of an integer: its decimal digits, after a minus sign when negative.\<close>

definition py_str :: "int \<Rightarrow> string" where
  "py_str i = (if i < 0 then CHR ''-'' # digits (nat (- i)) else digits (nat i))"

section \<open>Setup and helper functions\<close>

text \<open>
  \<^verbatim>\<open>create_twelvelabs_client\<close>: reads the key from the secrets store (a missing key
  raises \<^verbatim>\<open>KeyError\<close>) and constructs the client. The text of the \<^verbatim>\<open>KeyError\<close> is the
  library's; the program never reads it, and the model puts the key there.
\<close>

definition create_twelvelabs_client :: "remote \<Rightarrow> app_state \<Rightarrow> (exn + client) \<times> app_state" where
  "create_twelvelabs_client env s =
     (let s1 = log_event (SecretRead ''TWELVELABS_API_KEY'' (secrets env ''TWELVELABS_API_KEY'')) s
      in case secrets env ''TWELVELABS_API_KEY'' of
           None \<Rightarrow> (Inl (Exn ''KeyError'' ''TWELVELABS_API_KEY''), s1)
         | Some k \<Rightarrow> (twelvelabs_new env k, log_event (ClientNew k (twelvelabs_new env k)) s1))"

definition index_models :: "model_cfg list" where
  "index_models =
     [\<lparr>model_name = ''marengo2.7'', model_options = [''visual'', ''audio'']\<rparr>,
      \<lparr>model_name = ''pegasus1.2'', model_options = [''visual'', ''audio'']\<rparr>]"

text \<open>\<^verbatim>\<open>create_index\<close>: one call of \<^verbatim>\<open>client.index.create\<close>; any exception is re-raised
  as a \<^verbatim>\<open>RuntimeError\<close>.\<close>

definition create_index :: "remote \<Rightarrow> client \<Rightarrow> string \<Rightarrow> app_state \<Rightarrow> (exn + tl_index) \<times> app_state" where
  "create_index env cl index_name s =
     (let r = index_create env cl index_name index_models [''thumbnail''];
          s1 = log_event (IndexCreate index_name index_models [''thumbnail''] r) s
      in case r of
           Inr created_index \<Rightarrow> (Inr created_index, s1)
         | Inl e \<Rightarrow> (Inl (RuntimeError (''Failed to create index: '' @ exn_msg e)), s1))"

text \<open>\<^verbatim>\<open>generate_text_from_video\<close>: one call of \<^verbatim>\<open>client.generate.text\<close> with temperature
  0.7; returns the \<^verbatim>\<open>data\<close> of the result.\<close>

definition generate_text_from_video ::
    "remote \<Rightarrow> client \<Rightarrow> string \<Rightarrow> string \<Rightarrow> app_state \<Rightarrow> (exn + string) \<times> app_state" where
  "generate_text_from_video env cl video_id prompt s =
     (let r = generate_text env cl video_id prompt (7 / 10);
          s1 = log_event (GenerateText video_id prompt (7 / 10) r) s
      in case r of
           Inr result \<Rightarrow> (Inr (gen_data result), s1)
         | Inl e \<Rightarrow> (Inl (RuntimeError (''Text generation failed: '' @ exn_msg e)), s1))"

section \<open>Waiting for the task\<close>

text \<open>
  Modelled from the spec: \<^verbatim>\<open>Task.wait_for_done\<close> of the TwelveLabs client library, which
  is not part of the repository. The spec's polling protocol: block until the task
  reaches a terminal state; poll the status on the fixed interval given; on each poll
  invoke the caller's callback with the task as just retrieved; a transport error while
  polling is raised to the caller.

  The replies to the polls are the list \<open>ps\<close>. The wait is unbounded: when the replies
  run out before a terminal status is seen, the call has not returned, which is the
  value \<open>None\<close>; the state reached so far is returned beside it.
\<close>

fun wait_for_done ::
    "(string \<Rightarrow> bool) \<Rightarrow> task \<Rightarrow> int \<Rightarrow> (task \<Rightarrow> app_state \<Rightarrow> app_state) \<Rightarrow>
     (exn + task) list \<Rightarrow> app_state \<Rightarrow> (exn + task) option \<times> app_state" where
  "wait_for_done term t sleep_interval callback [] s =
     (if term (task_status t) then (Some (Inr t), s) else (None, s))"
| "wait_for_done term t sleep_interval callback (p # ps) s =
     (if term (task_status t) then (Some (Inr t), s)
      else
        (let s1 = log_event (TaskRetrieve p) (log_event (Sleep sleep_interval) s)
         in case p of
              Inl e \<Rightarrow> (Some (Inl e), s1)
            | Inr t' \<Rightarrow> wait_for_done term t' sleep_interval callback ps (callback t' s1)))"

section \<open>Upload and indexing\<close>

text \<open>The callback of the page: it overwrites the one status placeholder.\<close>

definition on_task_update :: "nat \<Rightarrow> task \<Rightarrow> app_state \<Rightarrow> app_state" where
  "on_task_update status_placeholder t =
     placeholder_write status_placeholder (''Indexing Status: '' @ task_status t)"

text \<open>The body of the \<^verbatim>\<open>try\<close> block of \<^verbatim>\<open>upload_video_and_wait\<close>.\<close>

definition upload_video_and_wait_try ::
    "remote \<Rightarrow> client \<Rightarrow> string \<Rightarrow> uploaded_file \<Rightarrow> app_state \<Rightarrow>
     (exn + string) option \<times> app_state" where
  "upload_video_and_wait_try env cl index_id video_file s =
     (let r = task_create env cl index_id video_file;
          s1 = log_event (TaskCreate index_id video_file r) s
      in case r of
           Inl e \<Rightarrow> (Some (Inl e), s1)
         | Inr t \<Rightarrow>
             (let (status_placeholder, s2) = st_empty s1
              in case wait_for_done (is_terminal env) t 30 (on_task_update status_placeholder)
                        (task_polls env) s2 of
                   (None, s3) \<Rightarrow> (None, s3)
                 | (Some (Inl e), s3) \<Rightarrow> (Some (Inl e), s3)
                 | (Some (Inr t'), s3) \<Rightarrow>
                     (if task_status t' \<noteq> ''ready''
                      then (Some (Inl (RuntimeError
                              (''Indexing failed with status '' @ [CHR 0x27] @ task_status t' @ [CHR 0x27]))), s3)
                      else (Some (Inr (task_video_id t')), s3))))"

text \<open>
  \<^verbatim>\<open>upload_video_and_wait\<close>: the handler \<^verbatim>\<open>except Exception as e\<close> around the body re-raises
  every exception of the body, the one the body raises itself for a status other than
  \<^verbatim>\<open>ready\<close> included, as a \<^verbatim>\<open>RuntimeError\<close>.
\<close>

definition upload_video_and_wait ::
    "remote \<Rightarrow> client \<Rightarrow> string \<Rightarrow> uploaded_file \<Rightarrow> app_state \<Rightarrow>
     (exn + string) option \<times> app_state" where
  "upload_video_and_wait env cl index_id video_file s =
     (case upload_video_and_wait_try env cl index_id video_file s of
        (None, s') \<Rightarrow> (None, s')
      | (Some (Inr video_id), s') \<Rightarrow> (Some (Inr video_id), s')
      | (Some (Inl e), s') \<Rightarrow>
          (Some (Inl (RuntimeError (''Video upload/indexing failed: '' @ exn_msg e))), s'))"

section \<open>The page\<close>

definition index_name_at :: "real \<Rightarrow> string" where
  "index_name_at now = ''my_product_index_'' @ py_str (py_int now)"

text \<open>The message shown for a failed stage: the dash is U+2014, then a blank line and the
  text of the exception.\<close>

definition oops_msg :: "exn \<Rightarrow> string" where
  "oops_msg e =
     ''Oops, it'' @ [CHR 0x27] @ ''s not you'' @ [CHR 0xE2, CHR 0x80, CHR 0x94] @ ''it'' @ [CHR 0x27]
       @ ''s us. Please try again.'' @ [CHR 0x0A, CHR 0x0A] @ ''Details: '' @ exn_msg e"

definition default_prompt :: string where
  "default_prompt =
     ''Analyze the video and provide segments of the video that are ideal for brand placements.''"

text \<open>\<^verbatim>\<open>if k not in st.session_state: st.session_state[k] = None\<close>, on the store and on the
  state that holds it.\<close>

definition session_init :: "string \<Rightarrow> session \<Rightarrow> session" where
  "session_init k ss = (if k \<notin> dom ss then ss(k \<mapsto> None) else ss)"

definition init_key :: "string \<Rightarrow> app_state \<Rightarrow> app_state" where
  "init_key k s = s\<lparr>session_state := session_init k (session_state s)\<rparr>"

definition set_key :: "string \<Rightarrow> string \<Rightarrow> app_state \<Rightarrow> app_state" where
  "set_key k v s = s\<lparr>session_state := (session_state s)(k \<mapsto> Some v)\<rparr>"

text \<open>
  The script runs from the top on every interaction with the page. Before \<^verbatim>\<open>main\<close> it
  only sets the page title and layout; that call reads no secret and is not modelled.
\<close>

text \<open>
  \<^verbatim>\<open>main\<close>, one run of the page script. The page and the trace start empty on every run;
  the session store is the one the previous run left. The result is \<open>Some (Inr ())\<close>
  when the run returns, \<open>Some (Inl e)\<close> when an exception leaves \<^verbatim>\<open>main\<close>, and \<open>None\<close>
  when the run is still waiting for the task.
\<close>

definition main :: "remote \<Rightarrow> inputs \<Rightarrow> session \<Rightarrow> (exn + unit) option \<times> app_state" where
  "main env inp ss =
     (let s0 = \<lparr>trace = [], ui = [], session_state = ss\<rparr>;
          s1 = st_title ''Product Placement Assistant'' s0;
          s2 = st_write ''Upload a video and click 'Analyze' to generate product placement insights.'' s1;
          user_prompt = prompt_text inp;
          s3 = st_emit (TextArea ''Prompt'' user_prompt) s2;
          s4 = init_key ''index_id'' s3;
          s5 = init_key ''video_id'' s4;
          uploaded_file = uploaded inp;
          s6 = st_emit (FileUploader ''Upload your video'') s5;
          s7 = st_emit (Button ''Analyze'') s6
      in if analyze_clicked inp then
           (case uploaded_file of
              None \<Rightarrow>
                (Some (Inr ()), st_error ''No video file provided. Please upload a valid file.'' s7)
            | Some video_file \<Rightarrow>
                (case create_twelvelabs_client env s7 of
                   (Inl e, s8) \<Rightarrow>
                     (Some (Inr ()),
                      st_error ''Could not initialize 12Labs client. Check your API key setup in st.secrets.'' s8)
                 | (Inr cl, s8) \<Rightarrow>
                     (let index_name = index_name_at (time_time env)
                      in case create_index env cl index_name
                                (st_spinner ''Creating a new 12Labs index...'' s8) of
                           (Inl e, s9) \<Rightarrow>
                             (if is_RuntimeError e then (Some (Inr ()), st_error (oops_msg e) s9)
                              else (Some (Inl e), s9))
                         | (Inr created_index, s9) \<Rightarrow>
                             (let s10 = st_success (''Index created: '' @ idx_name created_index
                                          @ '' (ID: '' @ idx_id created_index @ '')'') s9;
                                  s11 = set_key ''index_id'' (idx_id created_index) s10
                              in case upload_video_and_wait env cl (idx_id created_index) video_file
                                        (st_spinner ''Uploading and indexing your video. Please wait...'' s11) of
                                   (None, s12) \<Rightarrow> (None, s12)
                                 | (Some (Inl e), s12) \<Rightarrow>
                                     (if is_RuntimeError e then (Some (Inr ()), st_error (oops_msg e) s12)
                                      else (Some (Inl e), s12))
                                 | (Some (Inr video_id), s12) \<Rightarrow>
                                     (let s13 = set_key ''video_id'' video_id s12;
                                          s14 = st_success ''Video indexing completed successfully!'' s13
                                      in case generate_text_from_video env cl video_id user_prompt
                                                (st_spinner ''Generating text from your video...'' s14) of
                                           (Inl e, s15) \<Rightarrow>
                                             (if is_RuntimeError e
                                              then (Some (Inr ()), st_error (oops_msg e) s15)
                                              else (Some (Inl e), s15))
                                         | (Inr generated_text, s15) \<Rightarrow>
                                             (Some (Inr ()),
                                              st_write generated_text
                                                (st_write ''## Product placement insights''
                                                  (st_success ''Text generation successful!'' s15))))))))
         else (Some (Inr ()), s7))"

section \<open>Describing a run\<close>

text \<open>The value of the wait alone: it depends on the task and the replies only.\<close>

fun wait_outcome :: "(string \<Rightarrow> bool) \<Rightarrow> task \<Rightarrow> (exn + task) list \<Rightarrow> (exn + task) option" where
  "wait_outcome term t [] = (if term (task_status t) then Some (Inr t) else None)"
| "wait_outcome term t (p # ps) =
     (if term (task_status t) then Some (Inr t)
      else case p of Inl e \<Rightarrow> Some (Inl e) | Inr t' \<Rightarrow> wait_outcome term t' ps)"

text \<open>A reply after which the wait goes on: a task whose status is not terminal.\<close>

definition pending :: "(string \<Rightarrow> bool) \<Rightarrow> exn + task \<Rightarrow> bool" where
  "pending term p = (case p of Inl e \<Rightarrow> False | Inr t \<Rightarrow> \<not> term (task_status t))"

text \<open>The number of polls of a wait: none when the task is terminal already, else up to
  and including the first reply that ends the wait.\<close>

definition polls_made :: "(string \<Rightarrow> bool) \<Rightarrow> task \<Rightarrow> (exn + task) list \<Rightarrow> nat" where
  "polls_made term t ps =
     (if term (task_status t) then 0
      else min (length ps) (Suc (length (takeWhile (pending term) ps))))"

text \<open>What one poll adds to the trace when the status placeholder is element \<open>p\<close> of the
  page: a sleep of 30, the retrieval, and for a retrieved task the write of its status.\<close>

fun poll_round :: "nat \<Rightarrow> exn + task \<Rightarrow> event list" where
  "poll_round p (Inl e) = [Sleep 30, TaskRetrieve (Inl e)]"
| "poll_round p (Inr t) =
     [Sleep 30, TaskRetrieve (Inr t), PlaceholderWrite p (''Indexing Status: '' @ task_status t)]"

text \<open>What a placeholder showing \<open>x\<close> shows after the replies \<open>ps\<close>.\<close>

fun shown :: "ui_elem \<Rightarrow> (exn + task) list \<Rightarrow> ui_elem" where
  "shown x [] = x"
| "shown x (Inl e # ps) = shown x ps"
| "shown x (Inr t # ps) = shown (Placeholder (Some (''Indexing Status: '' @ task_status t))) ps"

text \<open>The video identifier a reply shows as ready, if any.\<close>

definition ready_ids :: "exn + task \<Rightarrow> string set" where
  "ready_ids r =
     (case r of Inl e \<Rightarrow> {} | Inr t \<Rightarrow> if task_status t = ''ready'' then {task_video_id t} else {})"

text \<open>
  The order of the calls in a trace. \<open>cs\<close> are the identifiers of the indexes created so
  far, \<open>tc\<close> says that a task has been created, \<open>rs\<close> are the video identifiers of the
  tasks seen in status \<^verbatim>\<open>ready\<close> so far. A task is created only in an index of \<open>cs\<close>, a
  task is retrieved only once one has been created, and text is generated only for a
  video of \<open>rs\<close>.
\<close>

fun in_order :: "string set \<Rightarrow> bool \<Rightarrow> string set \<Rightarrow> event list \<Rightarrow> bool" where
  "in_order cs tc rs [] = True"
| "in_order cs tc rs (IndexCreate n ms as r # es) =
     in_order (case r of Inl e \<Rightarrow> cs | Inr ix \<Rightarrow> insert (idx_id ix) cs) tc rs es"
| "in_order cs tc rs (TaskCreate iid f r # es) =
     (iid \<in> cs \<and> in_order cs (case r of Inl e \<Rightarrow> tc | Inr t \<Rightarrow> True) (ready_ids r \<union> rs) es)"
| "in_order cs tc rs (TaskRetrieve r # es) = (tc \<and> in_order cs tc (ready_ids r \<union> rs) es)"
| "in_order cs tc rs (GenerateText vid p tmp r # es) = (vid \<in> rs \<and> in_order cs tc rs es)"
| "in_order cs tc rs (e # es) = in_order cs tc rs es"

fun is_task_create :: "event \<Rightarrow> bool" where
  "is_task_create (TaskCreate iid f r) = True"
| "is_task_create e = False"

fun is_generate :: "event \<Rightarrow> bool" where
  "is_generate (GenerateText vid p tmp r) = True"
| "is_generate e = False"

fun is_secret_read :: "event \<Rightarrow> bool" where
  "is_secret_read (SecretRead k v) = True"
| "is_secret_read e = False"

text \<open>The events that reach the hosted service.\<close>

fun is_remote_call :: "event \<Rightarrow> bool" where
  "is_remote_call (IndexCreate n ms as r) = True"
| "is_remote_call (TaskCreate iid f r) = True"
| "is_remote_call (TaskRetrieve r) = True"
| "is_remote_call (GenerateText vid p tmp r) = True"
| "is_remote_call e = False"

fun is_error :: "ui_elem \<Rightarrow> bool" where
  "is_error (Error m) = True"
| "is_error x = False"

text \<open>The value of a string of decimal digits.\<close>

definition digit_val :: "char \<Rightarrow> nat" where
  "digit_val c = of_char c - 48"

definition digits_val :: "string \<Rightarrow> nat" where
  "digits_val cs = foldl (\<lambda>a c. 10 * a + digit_val c) 0 cs"

text \<open>The page above the button: what every run renders first.\<close>

definition widgets :: "inputs \<Rightarrow> ui_elem list" where
  "widgets inp =
     [Title ''Product Placement Assistant'',
      Write ''Upload a video and click 'Analyze' to generate product placement insights.'',
      TextArea ''Prompt'' (prompt_text inp),
      FileUploader ''Upload your video'',
      Button ''Analyze'']"

text \<open>The session store after the initialisation of the two keys.\<close>

definition init_keys :: "session \<Rightarrow> session" where
  "init_keys ss = session_init ''video_id'' (session_init ''index_id'' ss)"

text \<open>The trace of a run up to the creation of the index with reply \<open>r\<close>, and up to the
  creation of the task with reply \<open>r\<close>.\<close>

definition trace_to_index :: "remote \<Rightarrow> string \<Rightarrow> client \<Rightarrow> exn + tl_index \<Rightarrow> event list" where
  "trace_to_index env k cl r =
     [SecretRead ''TWELVELABS_API_KEY'' (Some k), ClientNew k (Inr cl),
      Spinner ''Creating a new 12Labs index...'',
      IndexCreate (index_name_at (time_time env)) index_models [''thumbnail''] r]"

definition trace_to_task ::
    "remote \<Rightarrow> string \<Rightarrow> client \<Rightarrow> tl_index \<Rightarrow> uploaded_file \<Rightarrow> exn + task \<Rightarrow> event list" where
  "trace_to_task env k cl ix f r =
     trace_to_index env k cl (Inr ix) @
     [Spinner ''Uploading and indexing your video. Please wait...'', TaskCreate (idx_id ix) f r]"

text \<open>The replies the wait for task \<open>t\<close> consumes, and the events of its polls when the
  status placeholder is element \<open>p\<close> of the page.\<close>

definition polled :: "remote \<Rightarrow> task \<Rightarrow> (exn + task) list" where
  "polled env t = take (polls_made (is_terminal env) t (task_polls env)) (task_polls env)"

definition poll_events :: "remote \<Rightarrow> task \<Rightarrow> nat \<Rightarrow> event list" where
  "poll_events env t p = concat (map (poll_round p) (polled env t))"

definition index_created_msg :: "tl_index \<Rightarrow> string" where
  "index_created_msg ix = ''Index created: '' @ idx_name ix @ '' (ID: '' @ idx_id ix @ '')''"

definition indexing_failed_msg :: "string \<Rightarrow> string" where
  "indexing_failed_msg st =
     ''Video upload/indexing failed: Indexing failed with status '' @ [CHR 0x27] @ st @ [CHR 0x27]"

text \<open>The names passed to \<^verbatim>\<open>client.index.create\<close> in a trace, and the temperatures passed
  to \<^verbatim>\<open>client.generate.text\<close>.\<close>

fun created_names :: "event list \<Rightarrow> string list" where
  "created_names [] = []"
| "created_names (IndexCreate n ms as r # es) = n # created_names es"
| "created_names (e # es) = created_names es"

fun temperatures :: "event list \<Rightarrow> rat list" where
  "temperatures [] = []"
| "temperatures (GenerateText vid p tmp r # es) = tmp # temperatures es"
| "temperatures (e # es) = temperatures es"

section \<open>Example runs\<close>

definition demo_file :: uploaded_file where
  "demo_file = \<lparr>file_name = ''clip.mp4'', file_data = ''0123''\<rparr>"

definition demo_inputs :: inputs where
  "demo_inputs = \<lparr>prompt_text = default_prompt, uploaded = Some demo_file, analyze_clicked = True\<rparr>"

definition demo_task :: "string \<Rightarrow> task" where
  "demo_task st = \<lparr>task_id = ''t1'', task_status = st, task_video_id = ''v1''\<rparr>"

definition demo_client :: client where
  "demo_client = \<lparr>api_key = ''key''\<rparr>"

definition demo_index :: "real \<Rightarrow> tl_index" where
  "demo_index now = \<lparr>idx_id = ''i1'', idx_name = index_name_at now\<rparr>"

text \<open>A service that accepts every call, with the clock at \<open>now\<close> and the poll replies
  \<open>ps\<close>; its terminal statuses are \<^verbatim>\<open>ready\<close> and \<^verbatim>\<open>failed\<close>.\<close>

definition demo_remote :: "real \<Rightarrow> (exn + task) list \<Rightarrow> remote" where
  "demo_remote now ps =
     \<lparr>secrets = [''TWELVELABS_API_KEY'' \<mapsto> ''key''],
      time_time = now,
      twelvelabs_new = (\<lambda>k. Inr \<lparr>api_key = k\<rparr>),
      index_create = (\<lambda>cl n ms as. Inr \<lparr>idx_id = ''i1'', idx_name = n\<rparr>),
      task_create = (\<lambda>cl iid f. Inr (demo_task ''validating'')),
      task_polls = ps,
      is_terminal = (\<lambda>st. st = ''ready'' \<or> st = ''failed''),
      generate_text = (\<lambda>cl vid p tmp. Inr \<lparr>gen_data = ''insights''\<rparr>)\<rparr>"

definition polls_ready :: "(exn + task) list" where
  "polls_ready = [Inr (demo_task ''indexing''), Inr (demo_task ''ready'')]"

definition polls_failed :: "(exn + task) list" where
  "polls_failed = [Inr (demo_task ''indexing''), Inr (demo_task ''failed'')]"

definition polls_broken :: "(exn + task) list" where
  "polls_broken = [Inr (demo_task ''indexing''), Inl (Exn ''APIConnectionError'' ''timed out'')]"

definition env_ready :: remote where
  "env_ready = demo_remote 100 polls_ready"

definition env_failed :: remote where
  "env_failed = demo_remote 100 polls_failed"

definition env_index_down :: remote where
  "env_index_down =
     (demo_remote 100 polls_ready)
       \<lparr>index_create := (\<lambda>cl n ms as. Inl (Exn ''APIStatusError'' ''quota exceeded''))\<rparr>"

definition env_no_key :: remote where
  "env_no_key = (demo_remote 100 polls_ready)\<lparr>secrets := Map.empty\<rparr>"

definition env_task_down :: remote where
  "env_task_down =
     (demo_remote 100 polls_ready)
       \<lparr>task_create := (\<lambda>cl iid f. Inl (Exn ''APIStatusError'' ''upload rejected''))\<rparr>"

definition env_broken :: remote where
  "env_broken = demo_remote 100 polls_broken"

definition env_gen_down :: remote where
  "env_gen_down =
     (demo_remote 100 polls_ready)
       \<lparr>generate_text := (\<lambda>cl vid p tmp. Inl (Exn ''APIStatusError'' ''overloaded''))\<rparr>"

definition empty_state :: app_state where
  "empty_state = \<lparr>trace = [], ui = [], session_state = Map.empty\<rparr>"

definition idle_inputs :: inputs where
  "idle_inputs = \<lparr>prompt_text = default_prompt, uploaded = None, analyze_clicked = False\<rparr>"

definition no_file_inputs :: inputs where
  "no_file_inputs = \<lparr>prompt_text = default_prompt, uploaded = None, analyze_clicked = True\<rparr>"

section \<open>Decimal strings\<close>

lemma digit_val_digit_char: "d < 10 \<Longrightarrow> digit_val (digit_char d) = d"
proof -
  assume "d < 10"
  then have "d \<in> {0, 1, 2, 3, 4, 5, 6, 7, 8, 9}" by auto
  then show ?thesis by (auto simp: digit_val_def digit_char_def)
qed

lemma digits_val_snoc: "digits_val (cs @ [c]) = 10 * digits_val cs + digit_val c"
  by (simp add: digits_val_def)

lemma digits_val_digits: "digits_val (digits n) = n"
proof (induction n rule: digits.induct)
  case (1 n)
  show ?case
  proof (cases "n < 10")
    case True
    then show ?thesis
      by (subst digits.simps) (simp add: digits_val_def digit_val_digit_char)
  next
    case False
    with 1 have "digits_val (digits (n div 10)) = n div 10" by simp
    with False show ?thesis
      by (subst digits.simps) (simp add: digits_val_snoc digit_val_digit_char)
  qed
qed

lemma digits_inj: "digits m = digits n \<Longrightarrow> m = n"
  by (metis digits_val_digits)

lemma digits_ne_Nil: "digits n \<noteq> []"
  by (subst digits.simps) simp

lemma hd_digits_not_minus: "hd (digits n) \<noteq> CHR ''-''"
proof (induction n rule: digits.induct)
  case (1 n)
  show ?case
  proof (cases "n < 10")
    case True
    then have "n \<in> {0, 1, 2, 3, 4, 5, 6, 7, 8, 9}" by auto
    then show ?thesis
      by (subst digits.simps) (auto simp: digit_char_def)
  next
    case False
    with 1 have "hd (digits (n div 10)) \<noteq> CHR ''-''" by simp
    with False show ?thesis
      by (subst digits.simps) (simp add: digits_ne_Nil)
  qed
qed

lemma py_str_inj: "py_str i = py_str j \<Longrightarrow> i = j"
proof -
  assume a: "py_str i = py_str j"
  have neg: "\<And>m n. CHR ''-'' # digits m \<noteq> digits n"
    by (metis hd_digits_not_minus list.sel(1))
  show ?thesis
  proof (cases "i < 0"; cases "j < 0")
    assume "i < 0" "j < 0"
    with a have "nat (- i) = nat (- j)" by (simp add: py_str_def digits_inj)
    with \<open>i < 0\<close> \<open>j < 0\<close> show ?thesis by simp
  next
    assume "i < 0" "\<not> j < 0"
    with a neg show ?thesis by (simp add: py_str_def)
  next
    assume "\<not> i < 0" "j < 0"
    with a neg[of "nat (- j)" "nat i"] show ?thesis by (simp add: py_str_def)
  next
    assume "\<not> i < 0" "\<not> j < 0"
    with a have "nat i = nat j" by (simp add: py_str_def digits_inj)
    with \<open>\<not> i < 0\<close> \<open>\<not> j < 0\<close> show ?thesis by simp
  qed
qed

lemma index_name_at_eq_iff: "index_name_at a = index_name_at b \<longleftrightarrow> py_int a = py_int b"
  by (auto simp: index_name_at_def dest: py_str_inj)

section \<open>The wait\<close>

lemma polls_made_Cons_Inr:
  "\<not> term (task_status t) \<Longrightarrow> polls_made term t (Inr t' # ps) = Suc (polls_made term t' ps)"
  by (simp add: polls_made_def pending_def)

lemma polls_made_Cons_Inl:
  "\<not> term (task_status t) \<Longrightarrow> polls_made term t (Inl e # ps) = 1"
  by (simp add: polls_made_def pending_def)

lemma polls_made_term: "term (task_status t) \<Longrightarrow> polls_made term t ps = 0"
  by (simp add: polls_made_def)

lemma polls_made_Nil: "polls_made term t [] = 0"
  by (simp add: polls_made_def)

lemma wait_for_done_fst:
  "fst (wait_for_done term t iv cb ps s) = wait_outcome term t ps"
  by (induction ps arbitrary: t s) (auto split: sum.splits)

lemma on_task_update_apply:
  "on_task_update p t s =
     s\<lparr>trace := trace s @ [PlaceholderWrite p (''Indexing Status: '' @ task_status t)],
       ui := (ui s)[p := Placeholder (Some (''Indexing Status: '' @ task_status t))]\<rparr>"
  by (simp add: on_task_update_def placeholder_write_def log_event_def)

lemma wait_for_done_snd:
  "p < length (ui s) \<Longrightarrow>
   snd (wait_for_done term t 30 (on_task_update p) ps s) =
     s\<lparr>trace := trace s @ concat (map (poll_round p) (take (polls_made term t ps) ps)),
       ui := (ui s)[p := shown (ui s ! p) (take (polls_made term t ps) ps)]\<rparr>"
proof (induction ps arbitrary: t s)
  case Nil
  then show ?case by (simp add: polls_made_Nil)
next
  case (Cons a ps)
  show ?case
  proof (cases "term (task_status t)")
    case True
    then show ?thesis by (simp add: polls_made_term)
  next
    case False
    show ?thesis
    proof (cases a)
      case (Inl e)
      with False show ?thesis
        by (simp add: polls_made_Cons_Inl log_event_def)
    next
      case (Inr t')
      let ?s1 = "on_task_update p t' (log_event (TaskRetrieve (Inr t')) (log_event (Sleep 30) s))"
      have s1: "?s1 = s\<lparr>trace := trace s @ poll_round p (Inr t'),
                         ui := (ui s)[p := Placeholder (Some (''Indexing Status: '' @ task_status t'))]\<rparr>"
        by (simp add: on_task_update_apply log_event_def)
      have len: "p < length (ui ?s1)" using Cons.prems
        by (simp add: s1)
      have step: "snd (wait_for_done term t 30 (on_task_update p) (a # ps) s)
            = snd (wait_for_done term t' 30 (on_task_update p) ps ?s1)"
        using False Inr by simp
      have n: "polls_made term t (a # ps) = Suc (polls_made term t' ps)"
        using False Inr by (simp add: polls_made_Cons_Inr)
      show ?thesis
        unfolding step Cons.IH[OF len] n
        using Cons.prems Inr by (simp add: s1)
    qed
  qed
qed

section \<open>The upload stage\<close>

lemma upload_try_fst:
  "fst (upload_video_and_wait_try env cl iid f s) =
     (case task_create env cl iid f of
        Inl e \<Rightarrow> Some (Inl e)
      | Inr t \<Rightarrow>
          (case wait_outcome (is_terminal env) t (task_polls env) of
             None \<Rightarrow> None
           | Some (Inl e) \<Rightarrow> Some (Inl e)
           | Some (Inr t') \<Rightarrow>
               if task_status t' \<noteq> ''ready''
               then Some (Inl (RuntimeError
                      (''Indexing failed with status '' @ [CHR 0x27] @ task_status t' @ [CHR 0x27])))
               else Some (Inr (task_video_id t'))))"
proof (cases "task_create env cl iid f")
  case (Inl e)
  then show ?thesis by (simp add: upload_video_and_wait_try_def)
next
  case (Inr t)
  let ?s2 = "st_emit (Placeholder None) (log_event (TaskCreate iid f (Inr t)) s)"
  let ?w = "wait_for_done (is_terminal env) t 30 (on_task_update (length (ui s))) (task_polls env) ?s2"
  have w: "fst ?w = wait_outcome (is_terminal env) t (task_polls env)"
    by (rule wait_for_done_fst)
  have "fst (upload_video_and_wait_try env cl iid f s) =
        (case fst ?w of None \<Rightarrow> None | Some (Inl e) \<Rightarrow> Some (Inl e)
         | Some (Inr t') \<Rightarrow> if task_status t' \<noteq> ''ready''
               then Some (Inl (RuntimeError
                      (''Indexing failed with status '' @ [CHR 0x27] @ task_status t' @ [CHR 0x27])))
               else Some (Inr (task_video_id t')))"
    using Inr
    by (simp add: upload_video_and_wait_try_def st_empty_def log_event_def
          split: prod.splits option.splits sum.splits)
  then show ?thesis using Inr by (simp add: w)
qed

lemma upload_try_snd:
  "snd (upload_video_and_wait_try env cl iid f s) =
     (case task_create env cl iid f of
        Inl e \<Rightarrow> s\<lparr>trace := trace s @ [TaskCreate iid f (Inl e)]\<rparr>
      | Inr t \<Rightarrow>
          s\<lparr>trace := trace s @ TaskCreate iid f (Inr t) #
                 concat (map (poll_round (length (ui s)))
                   (take (polls_made (is_terminal env) t (task_polls env)) (task_polls env))),
            ui := ui s @ [shown (Placeholder None)
                   (take (polls_made (is_terminal env) t (task_polls env)) (task_polls env))]\<rparr>)"
proof (cases "task_create env cl iid f")
  case (Inl e)
  then show ?thesis by (simp add: upload_video_and_wait_try_def log_event_def)
next
  case (Inr t)
  let ?s2 = "st_emit (Placeholder None) (log_event (TaskCreate iid f (Inr t)) s)"
  let ?w = "wait_for_done (is_terminal env) t 30 (on_task_update (length (ui s))) (task_polls env) ?s2"
  have len: "length (ui s) < length (ui ?s2)"
    by (simp add: st_emit_def log_event_def)
  have "snd (upload_video_and_wait_try env cl iid f s) = snd ?w"
    using Inr
    by (simp add: upload_video_and_wait_try_def st_empty_def log_event_def
          split: prod.splits option.splits sum.splits)
  also note wait_for_done_snd[OF len]
  finally show ?thesis using Inr
    by (simp add: st_emit_def log_event_def)
qed


lemma upload_snd:
  "snd (upload_video_and_wait env cl iid f s) = snd (upload_video_and_wait_try env cl iid f s)"
  by (simp add: upload_video_and_wait_def split: prod.splits option.splits sum.splits)

lemma upload_fst:
  "fst (upload_video_and_wait env cl iid f s) =
     (case fst (upload_video_and_wait_try env cl iid f s) of
        None \<Rightarrow> None
      | Some (Inr video_id) \<Rightarrow> Some (Inr video_id)
      | Some (Inl e) \<Rightarrow> Some (Inl (RuntimeError (''Video upload/indexing failed: '' @ exn_msg e))))"
  by (simp add: upload_video_and_wait_def split: prod.splits option.splits sum.splits)

lemma exn_msg_RuntimeError: "exn_msg (RuntimeError m) = m"
  by (simp add: RuntimeError_def)

lemma is_RuntimeError_RuntimeError: "is_RuntimeError (RuntimeError m)"
  by (simp add: RuntimeError_def is_RuntimeError_def)

lemmas page_defs = st_title_def st_write_def st_success_def st_error_def st_spinner_def
  st_emit_def log_event_def init_key_def set_key_def

lemma in_order_polls:
  "in_order cs True rs (concat (map (poll_round p) qs) @ K) =
     in_order cs True ((\<Union>q\<in>set qs. ready_ids q) \<union> rs) K"
proof (induction qs arbitrary: rs)
  case Nil
  then show ?case by simp
next
  case (Cons q qs)
  show ?case
  proof (cases q)
    case (Inl e)
    then show ?thesis using Cons.IH[of "ready_ids q \<union> rs"]
      by (simp add: Un_assoc Un_commute Un_left_commute)
  next
    case (Inr t)
    then show ?thesis using Cons.IH[of "ready_ids q \<union> rs"]
      by (simp add: Un_assoc Un_commute Un_left_commute)
  qed
qed

lemma wait_outcome_mem:
  "wait_outcome term t ps = Some (Inr t') \<Longrightarrow>
   t' = t \<or> Inr t' \<in> set (take (polls_made term t ps) ps)"
proof (induction ps arbitrary: t)
  case Nil
  then show ?case by (simp split: if_splits)
next
  case (Cons a ps)
  show ?case
  proof (cases "term (task_status t)")
    case True
    with Cons.prems show ?thesis by simp
  next
    case False
    show ?thesis
    proof (cases a)
      case (Inl e)
      with False Cons.prems show ?thesis by simp
    next
      case (Inr t1)
      with False Cons.prems have "wait_outcome term t1 ps = Some (Inr t')" by simp
      from Cons.IH[OF this] show ?thesis using False Inr
        by (auto simp: polls_made_Cons_Inr)
    qed
  qed
qed

lemma ready_seen:
  assumes "wait_outcome term t ps = Some (Inr t')" "task_status t' = ''ready''"
  shows "task_video_id t' \<in> ready_ids (Inr t) \<union> (\<Union>q\<in>set (take (polls_made term t ps) ps). ready_ids q)"
proof -
  from wait_outcome_mem[OF assms(1)] show ?thesis
  proof
    assume "t' = t"
    with assms(2) show ?thesis by (simp add: ready_ids_def)
  next
    assume m: "Inr t' \<in> set (take (polls_made term t ps) ps)"
    have "task_video_id t' \<in> ready_ids (Inr t')" using assms(2) by (simp add: ready_ids_def)
    with m show ?thesis by blast
  qed
qed

lemma in_order_polls_end:
  "in_order cs True rs (concat (map (poll_round p) qs)) = True"
  using in_order_polls[of cs rs p qs "[]"] by simp

lemmas stage_simps = main_def page_defs Let_def create_twelvelabs_client_def create_index_def
  generate_text_from_video_def case_prod_beta upload_fst upload_snd upload_try_fst upload_try_snd
  is_RuntimeError_RuntimeError exn_msg_RuntimeError

lemma init_keys_apply:
  "init_keys ss k =
     (if (k = ''index_id'' \<or> k = ''video_id'') \<and> ss k = None then Some None else ss k)"
  by (auto simp: init_keys_def session_init_def)

lemmas run_simps = stage_simps widgets_def init_keys_def trace_to_index_def trace_to_task_def
  polled_def poll_events_def index_created_msg_def indexing_failed_msg_def

lemma main_idle:
  "\<not> analyze_clicked inp \<Longrightarrow>
   main env inp ss = (Some (Inr ()), \<lparr>trace = [], ui = widgets inp, session_state = init_keys ss\<rparr>)"
  by (simp add: run_simps)

lemma main_no_file:
  "analyze_clicked inp \<Longrightarrow> uploaded inp = None \<Longrightarrow>
   main env inp ss =
     (Some (Inr ()),
      \<lparr>trace = [],
       ui = widgets inp @ [Error ''No video file provided. Please upload a valid file.''],
       session_state = init_keys ss\<rparr>)"
  by (simp add: run_simps)

lemma main_no_key:
  "analyze_clicked inp \<Longrightarrow> uploaded inp = Some f \<Longrightarrow> secrets env ''TWELVELABS_API_KEY'' = None \<Longrightarrow>
   main env inp ss =
     (Some (Inr ()),
      \<lparr>trace = [SecretRead ''TWELVELABS_API_KEY'' None],
       ui = widgets inp @
         [Error ''Could not initialize 12Labs client. Check your API key setup in st.secrets.''],
       session_state = init_keys ss\<rparr>)"
  by (simp add: run_simps)

lemma main_no_client:
  "analyze_clicked inp \<Longrightarrow> uploaded inp = Some f \<Longrightarrow> secrets env ''TWELVELABS_API_KEY'' = Some k \<Longrightarrow>
   twelvelabs_new env k = Inl e \<Longrightarrow>
   main env inp ss =
     (Some (Inr ()),
      \<lparr>trace = [SecretRead ''TWELVELABS_API_KEY'' (Some k), ClientNew k (Inl e)],
       ui = widgets inp @
         [Error ''Could not initialize 12Labs client. Check your API key setup in st.secrets.''],
       session_state = init_keys ss\<rparr>)"
  by (simp add: run_simps)

lemma main_index_failed:
  "analyze_clicked inp \<Longrightarrow> uploaded inp = Some f \<Longrightarrow> secrets env ''TWELVELABS_API_KEY'' = Some k \<Longrightarrow>
   twelvelabs_new env k = Inr cl \<Longrightarrow>
   index_create env cl (index_name_at (time_time env)) index_models [''thumbnail''] = Inl e \<Longrightarrow>
   main env inp ss =
     (Some (Inr ()),
      \<lparr>trace = trace_to_index env k cl (Inl e),
       ui = widgets inp @ [Error (oops_msg (RuntimeError (''Failed to create index: '' @ exn_msg e)))],
       session_state = init_keys ss\<rparr>)"
  by (simp add: run_simps)

lemma main_task_failed:
  "analyze_clicked inp \<Longrightarrow> uploaded inp = Some f \<Longrightarrow> secrets env ''TWELVELABS_API_KEY'' = Some k \<Longrightarrow>
   twelvelabs_new env k = Inr cl \<Longrightarrow>
   index_create env cl (index_name_at (time_time env)) index_models [''thumbnail''] = Inr ix \<Longrightarrow>
   task_create env cl (idx_id ix) f = Inl e \<Longrightarrow>
   main env inp ss =
     (Some (Inr ()),
      \<lparr>trace = trace_to_task env k cl ix f (Inl e),
       ui = widgets inp @
         [Success (index_created_msg ix),
          Error (oops_msg (RuntimeError (''Video upload/indexing failed: '' @ exn_msg e)))],
       session_state = (init_keys ss)(''index_id'' \<mapsto> Some (idx_id ix))\<rparr>)"
  by (simp add: run_simps)

lemma main_waiting:
  "analyze_clicked inp \<Longrightarrow> uploaded inp = Some f \<Longrightarrow> secrets env ''TWELVELABS_API_KEY'' = Some k \<Longrightarrow>
   twelvelabs_new env k = Inr cl \<Longrightarrow>
   index_create env cl (index_name_at (time_time env)) index_models [''thumbnail''] = Inr ix \<Longrightarrow>
   task_create env cl (idx_id ix) f = Inr t \<Longrightarrow>
   wait_outcome (is_terminal env) t (task_polls env) = None \<Longrightarrow>
   main env inp ss =
     (None,
      \<lparr>trace = trace_to_task env k cl ix f (Inr t) @ poll_events env t (Suc (length (widgets inp))),
       ui = widgets inp @ [Success (index_created_msg ix), shown (Placeholder None) (polled env t)],
       session_state = (init_keys ss)(''index_id'' \<mapsto> Some (idx_id ix))\<rparr>)"
  by (simp add: run_simps)

lemma main_poll_failed:
  "analyze_clicked inp \<Longrightarrow> uploaded inp = Some f \<Longrightarrow> secrets env ''TWELVELABS_API_KEY'' = Some k \<Longrightarrow>
   twelvelabs_new env k = Inr cl \<Longrightarrow>
   index_create env cl (index_name_at (time_time env)) index_models [''thumbnail''] = Inr ix \<Longrightarrow>
   task_create env cl (idx_id ix) f = Inr t \<Longrightarrow>
   wait_outcome (is_terminal env) t (task_polls env) = Some (Inl e) \<Longrightarrow>
   main env inp ss =
     (Some (Inr ()),
      \<lparr>trace = trace_to_task env k cl ix f (Inr t) @ poll_events env t (Suc (length (widgets inp))),
       ui = widgets inp @ [Success (index_created_msg ix), shown (Placeholder None) (polled env t),
          Error (oops_msg (RuntimeError (''Video upload/indexing failed: '' @ exn_msg e)))],
       session_state = (init_keys ss)(''index_id'' \<mapsto> Some (idx_id ix))\<rparr>)"
  by (simp add: run_simps)

lemma main_not_ready:
  "analyze_clicked inp \<Longrightarrow> uploaded inp = Some f \<Longrightarrow> secrets env ''TWELVELABS_API_KEY'' = Some k \<Longrightarrow>
   twelvelabs_new env k = Inr cl \<Longrightarrow>
   index_create env cl (index_name_at (time_time env)) index_models [''thumbnail''] = Inr ix \<Longrightarrow>
   task_create env cl (idx_id ix) f = Inr t \<Longrightarrow>
   wait_outcome (is_terminal env) t (task_polls env) = Some (Inr t') \<Longrightarrow>
   task_status t' \<noteq> ''ready'' \<Longrightarrow>
   main env inp ss =
     (Some (Inr ()),
      \<lparr>trace = trace_to_task env k cl ix f (Inr t) @ poll_events env t (Suc (length (widgets inp))),
       ui = widgets inp @ [Success (index_created_msg ix), shown (Placeholder None) (polled env t),
          Error (oops_msg (RuntimeError (indexing_failed_msg (task_status t'))))],
       session_state = (init_keys ss)(''index_id'' \<mapsto> Some (idx_id ix))\<rparr>)"
  by (simp add: run_simps)

lemma main_generate_failed:
  "analyze_clicked inp \<Longrightarrow> uploaded inp = Some f \<Longrightarrow> secrets env ''TWELVELABS_API_KEY'' = Some k \<Longrightarrow>
   twelvelabs_new env k = Inr cl \<Longrightarrow>
   index_create env cl (index_name_at (time_time env)) index_models [''thumbnail''] = Inr ix \<Longrightarrow>
   task_create env cl (idx_id ix) f = Inr t \<Longrightarrow>
   wait_outcome (is_terminal env) t (task_polls env) = Some (Inr t') \<Longrightarrow>
   task_status t' = ''ready'' \<Longrightarrow>
   generate_text env cl (task_video_id t') (prompt_text inp) (7 / 10) = Inl e \<Longrightarrow>
   main env inp ss =
     (Some (Inr ()),
      \<lparr>trace = trace_to_task env k cl ix f (Inr t) @ poll_events env t (Suc (length (widgets inp))) @
         [Spinner ''Generating text from your video...'',
          GenerateText (task_video_id t') (prompt_text inp) (7 / 10) (Inl e)],
       ui = widgets inp @ [Success (index_created_msg ix), shown (Placeholder None) (polled env t),
          Success ''Video indexing completed successfully!'',
          Error (oops_msg (RuntimeError (''Text generation failed: '' @ exn_msg e)))],
       session_state = (init_keys ss)(''index_id'' \<mapsto> Some (idx_id ix),
          ''video_id'' \<mapsto> Some (task_video_id t'))\<rparr>)"
  by (simp add: run_simps)

lemma main_done:
  "analyze_clicked inp \<Longrightarrow> uploaded inp = Some f \<Longrightarrow> secrets env ''TWELVELABS_API_KEY'' = Some k \<Longrightarrow>
   twelvelabs_new env k = Inr cl \<Longrightarrow>
   index_create env cl (index_name_at (time_time env)) index_models [''thumbnail''] = Inr ix \<Longrightarrow>
   task_create env cl (idx_id ix) f = Inr t \<Longrightarrow>
   wait_outcome (is_terminal env) t (task_polls env) = Some (Inr t') \<Longrightarrow>
   task_status t' = ''ready'' \<Longrightarrow>
   generate_text env cl (task_video_id t') (prompt_text inp) (7 / 10) = Inr g \<Longrightarrow>
   main env inp ss =
     (Some (Inr ()),
      \<lparr>trace = trace_to_task env k cl ix f (Inr t) @ poll_events env t (Suc (length (widgets inp))) @
         [Spinner ''Generating text from your video...'',
          GenerateText (task_video_id t') (prompt_text inp) (7 / 10) (Inr g)],
       ui = widgets inp @ [Success (index_created_msg ix), shown (Placeholder None) (polled env t),
          Success ''Video indexing completed successfully!'',
          Success ''Text generation successful!'',
          Write ''## Product placement insights'',
          Write (gen_data g)],
       session_state = (init_keys ss)(''index_id'' \<mapsto> Some (idx_id ix),
          ''video_id'' \<mapsto> Some (task_video_id t'))\<rparr>)"
  by (simp add: run_simps)


section \<open>The runs of the page\<close>

lemma run_cases [case_names idle no_file no_key no_client index_failed task_failed waiting
    poll_failed not_ready generate_failed finished]:
  obtains "\<not> analyze_clicked inp"
  | "analyze_clicked inp" "uploaded inp = None"
  | f where "analyze_clicked inp" "uploaded inp = Some f" "secrets env ''TWELVELABS_API_KEY'' = None"
  | f k e where "analyze_clicked inp" "uploaded inp = Some f"
      "secrets env ''TWELVELABS_API_KEY'' = Some k" "twelvelabs_new env k = Inl e"
  | f k cl e where "analyze_clicked inp" "uploaded inp = Some f"
      "secrets env ''TWELVELABS_API_KEY'' = Some k" "twelvelabs_new env k = Inr cl"
      "index_create env cl (index_name_at (time_time env)) index_models [''thumbnail''] = Inl e"
  | f k cl ix e where "analyze_clicked inp" "uploaded inp = Some f"
      "secrets env ''TWELVELABS_API_KEY'' = Some k" "twelvelabs_new env k = Inr cl"
      "index_create env cl (index_name_at (time_time env)) index_models [''thumbnail''] = Inr ix"
      "task_create env cl (idx_id ix) f = Inl e"
  | f k cl ix t where "analyze_clicked inp" "uploaded inp = Some f"
      "secrets env ''TWELVELABS_API_KEY'' = Some k" "twelvelabs_new env k = Inr cl"
      "index_create env cl (index_name_at (time_time env)) index_models [''thumbnail''] = Inr ix"
      "task_create env cl (idx_id ix) f = Inr t"
      "wait_outcome (is_terminal env) t (task_polls env) = None"
  | f k cl ix t e where "analyze_clicked inp" "uploaded inp = Some f"
      "secrets env ''TWELVELABS_API_KEY'' = Some k" "twelvelabs_new env k = Inr cl"
      "index_create env cl (index_name_at (time_time env)) index_models [''thumbnail''] = Inr ix"
      "task_create env cl (idx_id ix) f = Inr t"
      "wait_outcome (is_terminal env) t (task_polls env) = Some (Inl e)"
  | f k cl ix t t' where "analyze_clicked inp" "uploaded inp = Some f"
      "secrets env ''TWELVELABS_API_KEY'' = Some k" "twelvelabs_new env k = Inr cl"
      "index_create env cl (index_name_at (time_time env)) index_models [''thumbnail''] = Inr ix"
      "task_create env cl (idx_id ix) f = Inr t"
      "wait_outcome (is_terminal env) t (task_polls env) = Some (Inr t')"
      "task_status t' \<noteq> ''ready''"
  | f k cl ix t t' e where "analyze_clicked inp" "uploaded inp = Some f"
      "secrets env ''TWELVELABS_API_KEY'' = Some k" "twelvelabs_new env k = Inr cl"
      "index_create env cl (index_name_at (time_time env)) index_models [''thumbnail''] = Inr ix"
      "task_create env cl (idx_id ix) f = Inr t"
      "wait_outcome (is_terminal env) t (task_polls env) = Some (Inr t')"
      "task_status t' = ''ready''"
      "generate_text env cl (task_video_id t') (prompt_text inp) (7 / 10) = Inl e"
  | f k cl ix t t' g where "analyze_clicked inp" "uploaded inp = Some f"
      "secrets env ''TWELVELABS_API_KEY'' = Some k" "twelvelabs_new env k = Inr cl"
      "index_create env cl (index_name_at (time_time env)) index_models [''thumbnail''] = Inr ix"
      "task_create env cl (idx_id ix) f = Inr t"
      "wait_outcome (is_terminal env) t (task_polls env) = Some (Inr t')"
      "task_status t' = ''ready''"
      "generate_text env cl (task_video_id t') (prompt_text inp) (7 / 10) = Inr g"
proof (cases "analyze_clicked inp")
  case False
  then show ?thesis by (rule that(1))
next
  case clicked: True
  show ?thesis
  proof (cases "uploaded inp")
    case None
    with clicked show ?thesis by (rule that(2))
  next
    case upl: (Some f)
    show ?thesis
    proof (cases "secrets env ''TWELVELABS_API_KEY''")
      case None
      with clicked upl show ?thesis by (rule that(3))
    next
      case key: (Some k)
      show ?thesis
      proof (cases "twelvelabs_new env k")
        case (Inl e)
        with clicked upl key show ?thesis by (rule that(4))
      next
        case client: (Inr cl)
        show ?thesis
        proof (cases "index_create env cl (index_name_at (time_time env)) index_models [''thumbnail'']")
          case (Inl e)
          with clicked upl key client show ?thesis by (rule that(5))
        next
          case idx: (Inr ix)
          show ?thesis
          proof (cases "task_create env cl (idx_id ix) f")
            case (Inl e)
            with clicked upl key client idx show ?thesis by (rule that(6))
          next
            case tsk: (Inr t)
            show ?thesis
            proof (cases "wait_outcome (is_terminal env) t (task_polls env)")
              case None
              with clicked upl key client idx tsk show ?thesis by (rule that(7))
            next
              case (Some r)
              show ?thesis
              proof (cases r)
                case (Inl e)
                with Some have "wait_outcome (is_terminal env) t (task_polls env) = Some (Inl e)"
                  by simp
                with clicked upl key client idx tsk show ?thesis by (rule that(8))
              next
                case (Inr t')
                with Some have w: "wait_outcome (is_terminal env) t (task_polls env) = Some (Inr t')"
                  by simp
                show ?thesis
                proof (cases "task_status t' = ''ready''")
                  case False
                  with clicked upl key client idx tsk w show ?thesis by (rule that(9))
                next
                  case rdy: True
                  show ?thesis
                  proof (cases "generate_text env cl (task_video_id t') (prompt_text inp) (7 / 10)")
                    case (Inl e)
                    with clicked upl key client idx tsk w rdy show ?thesis by (rule that(10))
                  next
                    case (Inr g)
                    with clicked upl key client idx tsk w rdy show ?thesis by (rule that(11))
                  qed
                qed
              qed
            qed
          qed
        qed
      qed
    qed
  qed
qed

lemma filter_generate_polls: "filter is_generate (concat (map (poll_round p) qs)) = []"
proof (induction qs)
  case Nil
  show ?case by simp
next
  case (Cons q qs)
  then show ?case by (cases q) simp_all
qed

lemma filter_task_create_polls: "filter is_task_create (concat (map (poll_round p) qs)) = []"
proof (induction qs)
  case Nil
  show ?case by simp
next
  case (Cons q qs)
  then show ?case by (cases q) simp_all
qed

lemma created_names_polls: "created_names (concat (map (poll_round p) qs) @ es) = created_names es"
proof (induction qs)
  case Nil
  show ?case by simp
next
  case (Cons q qs)
  then show ?case by (cases q) simp_all
qed

lemma temperatures_polls: "temperatures (concat (map (poll_round p) qs) @ es) = temperatures es"
proof (induction qs)
  case Nil
  show ?case by simp
next
  case (Cons q qs)
  then show ?case by (cases q) simp_all
qed

lemmas trace_defs = trace_to_task_def trace_to_index_def poll_events_def

text \<open>
  Claim C1. When the wait ends with a task whose status is not \<^verbatim>\<open>ready\<close>, the upload stage
  raises the \<^verbatim>\<open>RuntimeError\<close> of the indexing failure, whose message carries that status;
  the run returns, its trace holds no generation request, and the last element of the
  page is the error message, whose text is written out here: it ends with the details
  of the indexing failure and the status between quotes.
\<close>
theorem not_ready_status_aborts_run:
  assumes "analyze_clicked inp" "uploaded inp = Some f"
    "secrets env ''TWELVELABS_API_KEY'' = Some k" "twelvelabs_new env k = Inr cl"
    "index_create env cl (index_name_at (time_time env)) index_models [''thumbnail''] = Inr ix"
    "task_create env cl (idx_id ix) f = Inr t"
    "wait_outcome (is_terminal env) t (task_polls env) = Some (Inr t')"
    "task_status t' \<noteq> ''ready''"
  shows "fst (upload_video_and_wait env cl (idx_id ix) f s) =
           Some (Inl (RuntimeError (''Video upload/indexing failed: Indexing failed with status ''
                  @ [CHR 0x27] @ task_status t' @ [CHR 0x27])))
       \<and> fst (main env inp ss) = Some (Inr ())
       \<and> filter is_generate (trace (snd (main env inp ss))) = []
       \<and> last (ui (snd (main env inp ss))) =
           Error (oops_msg (RuntimeError (''Video upload/indexing failed: Indexing failed with status ''
                  @ [CHR 0x27] @ task_status t' @ [CHR 0x27])))
       \<and> last (ui (snd (main env inp ss))) =
           Error (''Oops, it'' @ [CHR 0x27] @ ''s not you'' @ [CHR 0xE2, CHR 0x80, CHR 0x94] @ ''it''
                  @ [CHR 0x27] @ ''s us. Please try again.'' @ [CHR 0x0A, CHR 0x0A]
                  @ ''Details: Video upload/indexing failed: Indexing failed with status ''
                  @ [CHR 0x27] @ task_status t' @ [CHR 0x27])"
proof -
  have "fst (upload_video_and_wait env cl (idx_id ix) f s) =
           Some (Inl (RuntimeError (''Video upload/indexing failed: Indexing failed with status ''
                  @ [CHR 0x27] @ task_status t' @ [CHR 0x27])))"
    using assms(6-8) by (simp add: upload_fst upload_try_fst exn_msg_RuntimeError)
  moreover note m = main_not_ready[OF assms, of ss]
  moreover have "filter is_generate (trace (snd (main env inp ss))) = []"
    by (simp add: m trace_defs filter_generate_polls)
  moreover have "last (ui (snd (main env inp ss))) =
           Error (oops_msg (RuntimeError (''Video upload/indexing failed: Indexing failed with status ''
                  @ [CHR 0x27] @ task_status t' @ [CHR 0x27])))"
    by (simp add: m indexing_failed_msg_def)
  moreover have "last (ui (snd (main env inp ss))) =
           Error (''Oops, it'' @ [CHR 0x27] @ ''s not you'' @ [CHR 0xE2, CHR 0x80, CHR 0x94] @ ''it''
                  @ [CHR 0x27] @ ''s us. Please try again.'' @ [CHR 0x0A, CHR 0x0A]
                  @ ''Details: Video upload/indexing failed: Indexing failed with status ''
                  @ [CHR 0x27] @ task_status t' @ [CHR 0x27])"
    by (simp add: m indexing_failed_msg_def oops_msg_def exn_msg_RuntimeError)
  ultimately show ?thesis by simp
qed


text \<open>
  Claim C2. In every run, returned or still waiting, the calls come in order: a task is
  created only in an index created earlier in the run, a task is retrieved only after
  one was created, and text is generated only for a video whose task was seen earlier
  in status \<^verbatim>\<open>ready\<close>.
\<close>
theorem calls_in_order: "in_order {} False {} (trace (snd (main env inp ss)))"
proof (cases rule: run_cases[where inp=inp and env=env])
  case idle
  then show ?thesis by (simp add: main_idle)
next
  case no_file
  then show ?thesis by (simp add: main_no_file)
next
  case (no_key f)
  then show ?thesis by (simp add: main_no_key[OF no_key])
next
  case (no_client f k e)
  then show ?thesis by (simp add: main_no_client[OF no_client])
next
  case (index_failed f k cl e)
  then show ?thesis by (simp add: main_index_failed[OF index_failed] trace_defs)
next
  case (task_failed f k cl ix e)
  then show ?thesis by (simp add: main_task_failed[OF task_failed] trace_defs)
next
  case (waiting f k cl ix t)
  then show ?thesis by (simp add: main_waiting[OF waiting] trace_defs in_order_polls_end)
next
  case (poll_failed f k cl ix t e)
  then show ?thesis by (simp add: main_poll_failed[OF poll_failed] trace_defs in_order_polls_end)
next
  case (not_ready f k cl ix t t')
  then show ?thesis by (simp add: main_not_ready[OF not_ready] trace_defs in_order_polls_end)
next
  case (generate_failed f k cl ix t t' e)
  from ready_seen[OF generate_failed(7,8)]
  have "task_video_id t' \<in> (\<Union>q\<in>set (polled env t). ready_ids q) \<union> (ready_ids (Inr t) \<union> {})"
    by (simp add: polled_def Un_commute)
  then show ?thesis
    by (simp add: main_generate_failed[OF generate_failed] trace_defs in_order_polls)
next
  case (finished f k cl ix t t' g)
  from ready_seen[OF finished(7,8)]
  have "task_video_id t' \<in> (\<Union>q\<in>set (polled env t). ready_ids q) \<union> (ready_ids (Inr t) \<union> {})"
    by (simp add: polled_def Un_commute)
  then show ?thesis
    by (simp add: main_done[OF finished] trace_defs in_order_polls)
qed

text \<open>
  Claim C3. When the creation of the index fails, \<^verbatim>\<open>create_index\<close> raises the wrapped
  error, the run returns with that error on the page, the failed call is the last
  event of the trace, and the trace holds neither a task creation nor a generation
  request.
\<close>
theorem index_failure_stops_run:
  assumes "analyze_clicked inp" "uploaded inp = Some f"
    "secrets env ''TWELVELABS_API_KEY'' = Some k" "twelvelabs_new env k = Inr cl"
    "index_create env cl (index_name_at (time_time env)) index_models [''thumbnail''] = Inl e"
  shows "fst (create_index env cl (index_name_at (time_time env)) s) =
           Inl (RuntimeError (''Failed to create index: '' @ exn_msg e))
       \<and> fst (main env inp ss) = Some (Inr ())
       \<and> filter is_task_create (trace (snd (main env inp ss))) = []
       \<and> filter is_generate (trace (snd (main env inp ss))) = []
       \<and> last (trace (snd (main env inp ss))) =
           IndexCreate (index_name_at (time_time env)) index_models [''thumbnail''] (Inl e)
       \<and> last (ui (snd (main env inp ss))) =
           Error (oops_msg (RuntimeError (''Failed to create index: '' @ exn_msg e)))"
  using assms(5) by (simp add: main_index_failed[OF assms] trace_defs create_index_def)

text \<open>
  Claim C4. A run started with no uploaded file returns with the validation message as
  the last element of the page, and its trace is empty: no secret is read, no client is
  made, and no call reaches the service.
\<close>
theorem missing_file_rejected:
  assumes "analyze_clicked inp" "uploaded inp = None"
  shows "fst (main env inp ss) = Some (Inr ())
       \<and> trace (snd (main env inp ss)) = []
       \<and> last (ui (snd (main env inp ss))) =
           Error ''No video file provided. Please upload a valid file.''"
  by (simp add: main_no_file[OF assms])

lemma wait_outcome_raised:
  "wait_outcome term t ps = Some (Inl e) \<Longrightarrow> Inl e \<in> set ps"
proof (induction ps arbitrary: t)
  case Nil
  then show ?case by (simp split: if_splits)
next
  case (Cons a ps)
  then show ?case by (cases a) (auto split: if_splits)
qed

text \<open>
  Claim C5. In each of the three stage functions an exception of the remote call
  (index creation, task creation, a poll of the wait, text generation) is re-raised as
  a \<^verbatim>\<open>RuntimeError\<close> whose message is the prefix of the stage followed by the text of the
  original exception; and every exception that leaves a stage function is a
  \<^verbatim>\<open>RuntimeError\<close> whose message starts with the prefix of the stage.
\<close>
theorem remote_errors_wrapped:
  "(index_create env cl n index_models [''thumbnail''] = Inl e \<longrightarrow>
      fst (create_index env cl n s) = Inl (RuntimeError (''Failed to create index: '' @ exn_msg e)))
 \<and> (task_create env cl iid f = Inl e \<longrightarrow>
      fst (upload_video_and_wait env cl iid f s) =
        Some (Inl (RuntimeError (''Video upload/indexing failed: '' @ exn_msg e))))
 \<and> (task_create env cl iid f = Inr t \<and> wait_outcome (is_terminal env) t (task_polls env) = Some (Inl e) \<longrightarrow>
      Inl e \<in> set (task_polls env) \<and>
      fst (upload_video_and_wait env cl iid f s) =
        Some (Inl (RuntimeError (''Video upload/indexing failed: '' @ exn_msg e))))
 \<and> (generate_text env cl vid p (7 / 10) = Inl e \<longrightarrow>
      fst (generate_text_from_video env cl vid p s) =
        Inl (RuntimeError (''Text generation failed: '' @ exn_msg e)))
 \<and> (\<forall>x. fst (create_index env cl n s) = Inl x \<longrightarrow>
      is_RuntimeError x \<and> take 24 (exn_msg x) = ''Failed to create index: '')
 \<and> (\<forall>x. fst (upload_video_and_wait env cl iid f s) = Some (Inl x) \<longrightarrow>
      is_RuntimeError x \<and> take 30 (exn_msg x) = ''Video upload/indexing failed: '')
 \<and> (\<forall>x. fst (generate_text_from_video env cl vid p s) = Inl x \<longrightarrow>
      is_RuntimeError x \<and> take 24 (exn_msg x) = ''Text generation failed: '')"
proof -
  have a: "index_create env cl n index_models [''thumbnail''] = Inl e \<longrightarrow>
      fst (create_index env cl n s) = Inl (RuntimeError (''Failed to create index: '' @ exn_msg e))"
    by (simp add: create_index_def)
  have b: "task_create env cl iid f = Inl e \<longrightarrow>
      fst (upload_video_and_wait env cl iid f s) =
        Some (Inl (RuntimeError (''Video upload/indexing failed: '' @ exn_msg e)))"
    by (simp add: upload_fst upload_try_fst)
  have c: "task_create env cl iid f = Inr t \<and> wait_outcome (is_terminal env) t (task_polls env) = Some (Inl e) \<longrightarrow>
      Inl e \<in> set (task_polls env) \<and>
      fst (upload_video_and_wait env cl iid f s) =
        Some (Inl (RuntimeError (''Video upload/indexing failed: '' @ exn_msg e)))"
    by (auto simp: upload_fst upload_try_fst dest: wait_outcome_raised)
  have d: "generate_text env cl vid p (7 / 10) = Inl e \<longrightarrow>
      fst (generate_text_from_video env cl vid p s) =
        Inl (RuntimeError (''Text generation failed: '' @ exn_msg e))"
    by (simp add: generate_text_from_video_def)
  have e: "\<forall>x. fst (create_index env cl n s) = Inl x \<longrightarrow>
      is_RuntimeError x \<and> take 24 (exn_msg x) = ''Failed to create index: ''"
    by (auto simp: create_index_def Let_def is_RuntimeError_RuntimeError exn_msg_RuntimeError
          split: sum.splits)
  have f: "\<forall>x. fst (upload_video_and_wait env cl iid f s) = Some (Inl x) \<longrightarrow>
      is_RuntimeError x \<and> take 30 (exn_msg x) = ''Video upload/indexing failed: ''"
    by (auto simp: upload_fst is_RuntimeError_RuntimeError exn_msg_RuntimeError
          split: option.splits sum.splits)
  have g: "\<forall>x. fst (generate_text_from_video env cl vid p s) = Inl x \<longrightarrow>
      is_RuntimeError x \<and> take 24 (exn_msg x) = ''Text generation failed: ''"
    by (auto simp: generate_text_from_video_def Let_def is_RuntimeError_RuntimeError
          exn_msg_RuntimeError split: sum.splits)
  from a b c d e f g show ?thesis by blast
qed


lemmas demo_defs = demo_remote_def demo_inputs_def demo_file_def demo_task_def demo_client_def
  demo_index_def polls_ready_def polls_failed_def polls_broken_def env_ready_def env_failed_def
  env_index_down_def env_no_key_def env_task_down_def env_broken_def env_gen_down_def
  idle_inputs_def no_file_inputs_def empty_state_def

lemma demo_path:
  "analyze_clicked demo_inputs"
  "uploaded demo_inputs = Some demo_file"
  "secrets (demo_remote now ps) ''TWELVELABS_API_KEY'' = Some ''key''"
  "twelvelabs_new (demo_remote now ps) ''key'' = Inr demo_client"
  "index_create (demo_remote now ps) demo_client (index_name_at (time_time (demo_remote now ps)))
     index_models [''thumbnail''] = Inr (demo_index now)"
  "task_create (demo_remote now ps) demo_client (idx_id (demo_index now)) demo_file =
     Inr (demo_task ''validating'')"
  by (simp_all add: demo_defs)

lemma wait_failed:
  "wait_outcome (is_terminal (demo_remote now polls_failed)) (demo_task ''validating'')
     (task_polls (demo_remote now polls_failed)) = Some (Inr (demo_task ''failed''))"
  by (simp add: demo_defs)

lemma wait_ready:
  "wait_outcome (is_terminal (demo_remote now polls_ready)) (demo_task ''validating'')
     (task_polls (demo_remote now polls_ready)) = Some (Inr (demo_task ''ready''))"
  by (simp add: demo_defs)

theorem not_ready_status_aborts_run_witness:
  "wait_outcome (is_terminal env_failed) (demo_task ''validating'') (task_polls env_failed)
     = Some (Inr (demo_task ''failed''))
   \<and> fst (main env_failed demo_inputs Map.empty) = Some (Inr ())
   \<and> filter is_generate (trace (snd (main env_failed demo_inputs Map.empty))) = []
   \<and> last (ui (snd (main env_failed demo_inputs Map.empty))) =
       Error (''Oops, it'' @ [CHR 0x27] @ ''s not you'' @ [CHR 0xE2, CHR 0x80, CHR 0x94] @ ''it''
         @ [CHR 0x27] @ ''s us. Please try again.'' @ [CHR 0x0A, CHR 0x0A]
         @ ''Details: Video upload/indexing failed: Indexing failed with status ''
         @ [CHR 0x27] @ ''failed'' @ [CHR 0x27])"
proof -
  have st: "task_status (demo_task ''failed'') \<noteq> ''ready''" by (simp add: demo_task_def)
  show ?thesis
    using not_ready_status_aborts_run[OF demo_path wait_failed st, of 100 empty_state Map.empty]
      wait_failed[of 100]
    by (simp add: env_failed_def demo_task_def oops_msg_def exn_msg_RuntimeError)
qed

theorem calls_in_order_witness:
  "in_order {} False {} (trace (snd (main env_ready demo_inputs Map.empty)))
   \<and> length (filter is_generate (trace (snd (main env_ready demo_inputs Map.empty)))) = 1"
proof -
  have st: "task_status (demo_task ''ready'') = ''ready''" by (simp add: demo_task_def)
  have g: "generate_text (demo_remote 100 polls_ready) demo_client (task_video_id (demo_task ''ready''))
      (prompt_text demo_inputs) (7 / 10) = Inr \<lparr>gen_data = ''insights''\<rparr>"
    by (simp add: demo_defs)
  have "length (filter is_generate (trace (snd (main env_ready demo_inputs Map.empty)))) = 1"
    by (simp add: env_ready_def main_done[OF demo_path wait_ready st g] trace_defs
          filter_generate_polls)
  then show ?thesis using calls_in_order[of env_ready demo_inputs Map.empty] by simp
qed

theorem index_failure_stops_run_witness:
  "fst (main env_index_down demo_inputs Map.empty) = Some (Inr ())
   \<and> filter is_task_create (trace (snd (main env_index_down demo_inputs Map.empty))) = []
   \<and> filter is_generate (trace (snd (main env_index_down demo_inputs Map.empty))) = []
   \<and> last (ui (snd (main env_index_down demo_inputs Map.empty))) =
       Error (oops_msg (RuntimeError ''Failed to create index: quota exceeded''))"
proof -
  have k: "secrets env_index_down ''TWELVELABS_API_KEY'' = Some ''key''"
    and c: "twelvelabs_new env_index_down ''key'' = Inr demo_client"
    and i: "index_create env_index_down demo_client (index_name_at (time_time env_index_down))
             index_models [''thumbnail''] = Inl (Exn ''APIStatusError'' ''quota exceeded'')"
    by (simp_all add: demo_defs)
  show ?thesis
    using index_failure_stops_run[OF demo_path(1,2) k c i, of empty_state Map.empty] by simp
qed

theorem missing_file_rejected_witness:
  "analyze_clicked no_file_inputs \<and> uploaded no_file_inputs = None
   \<and> fst (main env_ready no_file_inputs Map.empty) = Some (Inr ())
   \<and> trace (snd (main env_ready no_file_inputs Map.empty)) = []
   \<and> last (ui (snd (main env_ready no_file_inputs Map.empty))) =
       Error ''No video file provided. Please upload a valid file.''"
proof -
  have a: "analyze_clicked no_file_inputs" and b: "uploaded no_file_inputs = None"
    by (simp_all add: no_file_inputs_def)
  show ?thesis using a b missing_file_rejected[OF a b, of env_ready Map.empty] by simp
qed

theorem remote_errors_wrapped_witness:
  "fst (create_index env_index_down demo_client ''n'' empty_state) =
     Inl (RuntimeError ''Failed to create index: quota exceeded'')
   \<and> fst (upload_video_and_wait env_task_down demo_client ''i1'' demo_file empty_state) =
     Some (Inl (RuntimeError ''Video upload/indexing failed: upload rejected''))
   \<and> fst (upload_video_and_wait env_broken demo_client ''i1'' demo_file empty_state) =
     Some (Inl (RuntimeError ''Video upload/indexing failed: timed out''))
   \<and> fst (generate_text_from_video env_gen_down demo_client ''v1'' ''p'' empty_state) =
     Inl (RuntimeError ''Text generation failed: overloaded'')"
proof -
  have a: "index_create env_index_down demo_client ''n'' index_models [''thumbnail'']
             = Inl (Exn ''APIStatusError'' ''quota exceeded'')"
    and b: "task_create env_task_down demo_client ''i1'' demo_file
             = Inl (Exn ''APIStatusError'' ''upload rejected'')"
    and c: "generate_text env_gen_down demo_client ''v1'' ''p'' (7 / 10)
             = Inl (Exn ''APIStatusError'' ''overloaded'')"
    and d: "task_create env_broken demo_client ''i1'' demo_file = Inr (demo_task ''validating'')"
    and e: "wait_outcome (is_terminal env_broken) (demo_task ''validating'') (task_polls env_broken)
             = Some (Inl (Exn ''APIConnectionError'' ''timed out''))"
    by (simp_all add: demo_defs)
  have 1: "fst (create_index env_index_down demo_client ''n'' empty_state) =
     Inl (RuntimeError ''Failed to create index: quota exceeded'')"
    using a remote_errors_wrapped[where env=env_index_down and cl=demo_client and n="''n''" and s=empty_state
        and e="Exn ''APIStatusError'' ''quota exceeded''" and iid="''i1''" and f=demo_file
        and t="demo_task ''validating''" and vid="''v1''" and p="''p''"]
    by simp
  have 2: "fst (upload_video_and_wait env_task_down demo_client ''i1'' demo_file empty_state) =
     Some (Inl (RuntimeError ''Video upload/indexing failed: upload rejected''))"
    using b remote_errors_wrapped[where env=env_task_down and cl=demo_client and n="''n''" and s=empty_state
        and e="Exn ''APIStatusError'' ''upload rejected''" and iid="''i1''" and f=demo_file
        and t="demo_task ''validating''" and vid="''v1''" and p="''p''"]
    by simp
  have 3: "fst (upload_video_and_wait env_broken demo_client ''i1'' demo_file empty_state) =
     Some (Inl (RuntimeError ''Video upload/indexing failed: timed out''))"
    using d e remote_errors_wrapped[where env=env_broken and cl=demo_client and n="''n''" and s=empty_state
        and e="Exn ''APIConnectionError'' ''timed out''" and iid="''i1''" and f=demo_file
        and t="demo_task ''validating''" and vid="''v1''" and p="''p''"]
    by simp
  have 4: "fst (generate_text_from_video env_gen_down demo_client ''v1'' ''p'' empty_state) =
     Inl (RuntimeError ''Text generation failed: overloaded'')"
    using c remote_errors_wrapped[where env=env_gen_down and cl=demo_client and n="''n''" and s=empty_state
        and e="Exn ''APIStatusError'' ''overloaded''" and iid="''i1''" and f=demo_file
        and t="demo_task ''validating''" and vid="''v1''" and p="''p''"]
    by simp
  from 1 2 3 4 show ?thesis by simp
qed


lemma temperatures_polls_end: "temperatures (concat (map (poll_round p) qs)) = []"
  using temperatures_polls[of p qs "[]"] by simp

lemma created_names_polls_end: "created_names (concat (map (poll_round p) qs)) = []"
  using created_names_polls[of p qs "[]"] by simp

text \<open>
  Claim C6. \<^verbatim>\<open>generate_text_from_video\<close> makes one generation call, with temperature 0.7
  (the decimal value of the literal of the source), and returns the \<^verbatim>\<open>data\<close> of the
  result when the call succeeds; every generation call in the trace of a run has
  temperature 0.7.
\<close>
theorem generation_temperature_and_payload:
  "snd (generate_text_from_video env cl vid p s) =
     log_event (GenerateText vid p (7 / 10) (generate_text env cl vid p (7 / 10))) s
   \<and> (generate_text env cl vid p (7 / 10) = Inr g \<longrightarrow>
        fst (generate_text_from_video env cl vid p s) = Inr (gen_data g))
   \<and> set (temperatures (trace (snd (main env inp ss)))) \<subseteq> {7 / 10}"
proof -
  have a: "snd (generate_text_from_video env cl vid p s) =
     log_event (GenerateText vid p (7 / 10) (generate_text env cl vid p (7 / 10))) s"
    by (simp add: generate_text_from_video_def Let_def split: sum.splits)
  have b: "generate_text env cl vid p (7 / 10) = Inr g \<longrightarrow>
        fst (generate_text_from_video env cl vid p s) = Inr (gen_data g)"
    by (simp add: generate_text_from_video_def)
  have c: "set (temperatures (trace (snd (main env inp ss)))) \<subseteq> {7 / 10}"
  proof (cases rule: run_cases[where inp=inp and env=env])
    case idle
    then show ?thesis by (simp add: main_idle)
  next
    case no_file
    then show ?thesis by (simp add: main_no_file)
  next
    case (no_key f)
    then show ?thesis by (simp add: main_no_key[OF no_key])
  next
    case (no_client f k e)
    then show ?thesis by (simp add: main_no_client[OF no_client])
  next
    case (index_failed f k cl e)
    then show ?thesis by (simp add: main_index_failed[OF index_failed] trace_defs)
  next
    case (task_failed f k cl ix e)
    then show ?thesis by (simp add: main_task_failed[OF task_failed] trace_defs)
  next
    case (waiting f k cl ix t)
    then show ?thesis by (simp add: main_waiting[OF waiting] trace_defs temperatures_polls_end)
  next
    case (poll_failed f k cl ix t e)
    then show ?thesis by (simp add: main_poll_failed[OF poll_failed] trace_defs temperatures_polls_end)
  next
    case (not_ready f k cl ix t t')
    then show ?thesis by (simp add: main_not_ready[OF not_ready] trace_defs temperatures_polls_end)
  next
    case (generate_failed f k cl ix t t' e)
    then show ?thesis
      by (simp add: main_generate_failed[OF generate_failed] trace_defs temperatures_polls)
  next
    case (finished f k cl ix t t' g)
    then show ?thesis by (simp add: main_done[OF finished] trace_defs temperatures_polls)
  qed
  from a b c show ?thesis by blast
qed

lemma ready_run:
  "main (demo_remote now polls_ready) demo_inputs ss =
     (Some (Inr ()),
      \<lparr>trace = trace_to_task (demo_remote now polls_ready) ''key'' demo_client (demo_index now) demo_file
           (Inr (demo_task ''validating'')) @
         poll_events (demo_remote now polls_ready) (demo_task ''validating'')
           (Suc (length (widgets demo_inputs))) @
         [Spinner ''Generating text from your video...'',
          GenerateText ''v1'' default_prompt (7 / 10) (Inr \<lparr>gen_data = ''insights''\<rparr>)],
       ui = widgets demo_inputs @ [Success (index_created_msg (demo_index now)),
          shown (Placeholder None) (polled (demo_remote now polls_ready) (demo_task ''validating'')),
          Success ''Video indexing completed successfully!'',
          Success ''Text generation successful!'',
          Write ''## Product placement insights'',
          Write ''insights''],
       session_state = (init_keys ss)(''index_id'' \<mapsto> Some ''i1'', ''video_id'' \<mapsto> Some ''v1'')\<rparr>)"
proof -
  have st: "task_status (demo_task ''ready'') = ''ready''" by (simp add: demo_task_def)
  have g: "generate_text (demo_remote now polls_ready) demo_client (task_video_id (demo_task ''ready''))
      (prompt_text demo_inputs) (7 / 10) = Inr \<lparr>gen_data = ''insights''\<rparr>"
    by (simp add: demo_defs)
  show ?thesis
    using main_done[OF demo_path wait_ready st g, where ss=ss]
    by (simp add: demo_task_def demo_inputs_def demo_index_def)
qed

theorem generation_temperature_and_payload_witness:
  "fst (generate_text_from_video env_ready demo_client ''v1'' ''p'' empty_state) = Inr ''insights''
   \<and> trace (snd (generate_text_from_video env_ready demo_client ''v1'' ''p'' empty_state)) =
       [GenerateText ''v1'' ''p'' (7 / 10) (Inr \<lparr>gen_data = ''insights''\<rparr>)]
   \<and> temperatures (trace (snd (main env_ready demo_inputs Map.empty))) = [7 / 10]"
proof -
  have g: "generate_text env_ready demo_client ''v1'' ''p'' (7 / 10) = Inr \<lparr>gen_data = ''insights''\<rparr>"
    by (simp add: demo_defs)
  have t: "temperatures (trace (snd (main env_ready demo_inputs Map.empty))) = [7 / 10]"
    by (simp add: env_ready_def ready_run trace_defs temperatures_polls)
  show ?thesis
    using g t generation_temperature_and_payload[where env=env_ready and cl=demo_client and vid="''v1''" and p="''p''"
        and s=empty_state and g="\<lparr>gen_data = ''insights''\<rparr>" and inp=demo_inputs and ss=Map.empty]
    by (simp add: log_event_def empty_state_def)
qed

text \<open>
  Claim C9. After the task is created, the upload stage adds to the trace one round per
  poll: a sleep of 30, the retrieval, and the write of the retrieved status to the
  status placeholder. The page gains exactly one element, the placeholder, which shows
  the status of the last poll, however many polls there were.
\<close>
theorem polling_updates_one_placeholder:
  assumes "task_create env cl iid f = Inr t"
  shows "trace (snd (upload_video_and_wait env cl iid f s)) =
           trace s @ TaskCreate iid f (Inr t) # concat (map (poll_round (length (ui s))) (polled env t))
       \<and> ui (snd (upload_video_and_wait env cl iid f s)) =
           ui s @ [shown (Placeholder None) (polled env t)]
       \<and> length (ui (snd (upload_video_and_wait env cl iid f s))) = Suc (length (ui s))"
  using assms by (simp add: upload_snd upload_try_snd polled_def)

lemma polled_ready:
  "polled (demo_remote now polls_ready) (demo_task ''validating'') = polls_ready"
  by (simp add: polled_def polls_made_def pending_def demo_defs)

theorem polling_updates_one_placeholder_witness:
  "trace (snd (upload_video_and_wait env_ready demo_client ''i1'' demo_file empty_state)) =
     [TaskCreate ''i1'' demo_file (Inr (demo_task ''validating'')),
      Sleep 30, TaskRetrieve (Inr (demo_task ''indexing'')),
      PlaceholderWrite 0 ''Indexing Status: indexing'',
      Sleep 30, TaskRetrieve (Inr (demo_task ''ready'')),
      PlaceholderWrite 0 ''Indexing Status: ready'']
   \<and> ui (snd (upload_video_and_wait env_ready demo_client ''i1'' demo_file empty_state)) =
     [Placeholder (Some ''Indexing Status: ready'')]"
proof -
  have c: "task_create env_ready demo_client ''i1'' demo_file = Inr (demo_task ''validating'')"
    by (simp add: demo_defs)
  have p: "polled env_ready (demo_task ''validating'') = polls_ready"
    by (simp add: env_ready_def polled_ready)
  show ?thesis
    using polling_updates_one_placeholder[OF c, of empty_state] unfolding p
    by (simp add: polls_ready_def empty_state_def demo_task_def)
qed


lemma filter_secret_read_polls: "filter is_secret_read (concat (map (poll_round p) qs)) = []"
proof (induction qs)
  case Nil
  show ?case by simp
next
  case (Cons q qs)
  then show ?case by (cases q) simp_all
qed

lemma client_fst:
  "fst (create_twelvelabs_client env s) =
     (case secrets env ''TWELVELABS_API_KEY'' of
        None \<Rightarrow> Inl (Exn ''KeyError'' ''TWELVELABS_API_KEY'')
      | Some k \<Rightarrow> twelvelabs_new env k)"
  by (simp add: create_twelvelabs_client_def Let_def split: option.splits)

text \<open>
  Claim C7 as stated fails. With no key in the secrets store, the run that only renders
  the page (no click) returns without an error and without reading the store, and the
  run with a click and a file shows the client error: the missing key is found by the
  run that needs it, not at the start.
\<close>
theorem missing_key_not_a_startup_failure:
  "secrets env_no_key ''TWELVELABS_API_KEY'' = None
   \<and> fst (main env_no_key idle_inputs Map.empty) = Some (Inr ())
   \<and> filter is_error (ui (snd (main env_no_key idle_inputs Map.empty))) = []
   \<and> filter is_secret_read (trace (snd (main env_no_key idle_inputs Map.empty))) = []
   \<and> filter is_error (ui (snd (main env_no_key demo_inputs Map.empty))) =
       [Error ''Could not initialize 12Labs client. Check your API key setup in st.secrets.'']"
proof -
  have k: "secrets env_no_key ''TWELVELABS_API_KEY'' = None" by (simp add: demo_defs)
  have i: "\<not> analyze_clicked idle_inputs" by (simp add: idle_inputs_def)
  show ?thesis
    by (simp add: k main_idle[OF i] main_no_key[OF demo_path(1,2) k] widgets_def)
qed

text \<open>
  Claim C7, as the code has it. The key is read inside the handler of the button, once
  per run that gets past the validation of the file: a run without a click or without
  a file reads no secret; a run with both starts by reading the key and reads it exactly once; and when the
  client cannot be made (the key is absent, or the constructor raises) the run returns
  with the client message as the last element of the page and without any call to the
  service. The failure belongs to the run, not to the start of the page.
\<close>
theorem api_key_read_per_run:
  "((\<not> analyze_clicked inp \<or> uploaded inp = None) \<longrightarrow>
      filter is_secret_read (trace (snd (main env inp ss))) = [])
   \<and> (analyze_clicked inp \<and> uploaded inp = Some f \<longrightarrow>
      take 1 (trace (snd (main env inp ss))) =
        [SecretRead ''TWELVELABS_API_KEY'' (secrets env ''TWELVELABS_API_KEY'')]
      \<and> filter is_secret_read (trace (snd (main env inp ss))) =
        [SecretRead ''TWELVELABS_API_KEY'' (secrets env ''TWELVELABS_API_KEY'')])
   \<and> (analyze_clicked inp \<and> uploaded inp = Some f \<and> fst (create_twelvelabs_client env s) = Inl e \<longrightarrow>
      fst (main env inp ss) = Some (Inr ())
      \<and> filter is_remote_call (trace (snd (main env inp ss))) = []
      \<and> last (ui (snd (main env inp ss))) =
          Error ''Could not initialize 12Labs client. Check your API key setup in st.secrets.'')"
proof (cases rule: run_cases[where inp=inp and env=env])
  case idle
  then show ?thesis by (simp add: main_idle)
next
  case no_file
  then show ?thesis by (simp add: main_no_file)
next
  case (no_key f)
  then show ?thesis by (simp add: main_no_key[OF no_key])
next
  case (no_client f k e)
  then show ?thesis by (simp add: main_no_client[OF no_client])
next
  case (index_failed f k cl e)
  then show ?thesis by (simp add: main_index_failed[OF index_failed] trace_defs client_fst filter_secret_read_polls)
next
  case (task_failed f k cl ix e)
  then show ?thesis by (simp add: main_task_failed[OF task_failed] trace_defs client_fst filter_secret_read_polls)
next
  case (waiting f k cl ix t)
  then show ?thesis by (simp add: main_waiting[OF waiting] trace_defs client_fst filter_secret_read_polls)
next
  case (poll_failed f k cl ix t e)
  then show ?thesis by (simp add: main_poll_failed[OF poll_failed] trace_defs client_fst filter_secret_read_polls)
next
  case (not_ready f k cl ix t t')
  then show ?thesis by (simp add: main_not_ready[OF not_ready] trace_defs client_fst filter_secret_read_polls)
next
  case (generate_failed f k cl ix t t' e)
  then show ?thesis by (simp add: main_generate_failed[OF generate_failed] trace_defs client_fst filter_secret_read_polls)
next
  case (finished f k cl ix t t' g)
  then show ?thesis by (simp add: main_done[OF finished] trace_defs client_fst filter_secret_read_polls)
qed

theorem api_key_read_per_run_witness:
  "filter is_secret_read (trace (snd (main env_no_key idle_inputs Map.empty))) = []
   \<and> take 1 (trace (snd (main env_no_key demo_inputs Map.empty))) =
        [SecretRead ''TWELVELABS_API_KEY'' None]
   \<and> filter is_secret_read (trace (snd (main env_no_key demo_inputs Map.empty))) =
        [SecretRead ''TWELVELABS_API_KEY'' None]
   \<and> filter is_secret_read (trace (snd (main env_ready demo_inputs Map.empty))) =
        [SecretRead ''TWELVELABS_API_KEY'' (Some ''key'')]
   \<and> fst (create_twelvelabs_client env_no_key empty_state) = Inl (Exn ''KeyError'' ''TWELVELABS_API_KEY'')
   \<and> fst (main env_no_key demo_inputs Map.empty) = Some (Inr ())
   \<and> filter is_remote_call (trace (snd (main env_no_key demo_inputs Map.empty))) = []
   \<and> last (ui (snd (main env_no_key demo_inputs Map.empty))) =
        Error ''Could not initialize 12Labs client. Check your API key setup in st.secrets.''"
proof -
  have k: "secrets env_no_key ''TWELVELABS_API_KEY'' = None" by (simp add: demo_defs)
  have i: "\<not> analyze_clicked idle_inputs" by (simp add: idle_inputs_def)
  have c: "fst (create_twelvelabs_client env_no_key empty_state) = Inl (Exn ''KeyError'' ''TWELVELABS_API_KEY'')"
    by (simp add: client_fst k)
  show ?thesis
    using i k c demo_path(1,2)
      api_key_read_per_run[where env=env_no_key and inp=idle_inputs and ss=Map.empty and f=demo_file
          and s=empty_state and e="Exn ''KeyError'' ''TWELVELABS_API_KEY''"]
      api_key_read_per_run[where env=env_no_key and inp=demo_inputs and ss=Map.empty and f=demo_file
          and s=empty_state and e="Exn ''KeyError'' ''TWELVELABS_API_KEY''"]
      api_key_read_per_run[where env=env_ready and inp=demo_inputs and ss=Map.empty and f=demo_file
          and s=empty_state and e="Exn ''KeyError'' ''TWELVELABS_API_KEY''"]
      demo_path(3)[of 100 polls_ready]
    by (simp add: env_ready_def)
qed

lemma name_100_3: "index_name_at (1003 / 10) = ''my_product_index_100''"
  by (simp add: index_name_at_def py_int_def py_str_def digits.simps digit_char_def)

lemma name_100_7: "index_name_at (1007 / 10) = ''my_product_index_100''"
  by (simp add: index_name_at_def py_int_def py_str_def digits.simps digit_char_def)

text \<open>
  Claim C8 as stated fails. Two runs whose clocks read 100.3 and 100.7 create their
  indexes under the same name.
\<close>
theorem same_second_same_index_name:
  "time_time (demo_remote (1003 / 10) polls_ready) \<noteq> time_time (demo_remote (1007 / 10) polls_ready)
   \<and> created_names (trace (snd (main (demo_remote (1003 / 10) polls_ready) demo_inputs Map.empty))) =
       [''my_product_index_100'']
   \<and> created_names (trace (snd (main (demo_remote (1007 / 10) polls_ready) demo_inputs Map.empty))) =
       [''my_product_index_100'']"
proof -
  have t: "time_time (demo_remote (1003 / 10) polls_ready) = 1003 / 10"
    "time_time (demo_remote (1007 / 10) polls_ready) = 1007 / 10"
    by (simp_all add: demo_remote_def)
  show ?thesis
    by (simp add: ready_run trace_defs created_names_polls t name_100_3 name_100_7)
qed

text \<open>
  Claim C8, as the code has it. A run that has made its client issues exactly one index
  creation, named after the clock in whole seconds; the calls of the run do not depend
  on the session store, so no index of an earlier run is reused; and the names of two
  runs are equal exactly when their clocks agree in whole seconds.
\<close>
theorem index_name_per_whole_second:
  assumes "analyze_clicked inp" "uploaded inp = Some f"
    "secrets env ''TWELVELABS_API_KEY'' = Some k" "twelvelabs_new env k = Inr cl"
  shows "created_names (trace (snd (main env inp ss))) = [index_name_at (time_time env)]
       \<and> trace (snd (main env inp ss)) = trace (snd (main env inp ss'))
       \<and> (index_name_at (time_time env) = index_name_at (time_time env')
            \<longleftrightarrow> py_int (time_time env) = py_int (time_time env'))"
proof -
  have "created_names (trace (snd (main env inp ss))) = [index_name_at (time_time env)]
       \<and> trace (snd (main env inp ss)) = trace (snd (main env inp ss'))"
  proof (cases rule: run_cases[where inp=inp and env=env])
    case idle
    with assms show ?thesis by simp
  next
    case no_file
    with assms show ?thesis by simp
  next
    case (no_key f)
    with assms show ?thesis by simp
  next
    case (no_client f k e)
    with assms show ?thesis by simp
  next
    case (index_failed f k cl e)
    then show ?thesis by (simp add: main_index_failed[OF index_failed] trace_defs)
  next
    case (task_failed f k cl ix e)
    then show ?thesis by (simp add: main_task_failed[OF task_failed] trace_defs)
  next
    case (waiting f k cl ix t)
    then show ?thesis
      by (simp add: main_waiting[OF waiting] trace_defs created_names_polls_end)
  next
    case (poll_failed f k cl ix t e)
    then show ?thesis
      by (simp add: main_poll_failed[OF poll_failed] trace_defs created_names_polls_end)
  next
    case (not_ready f k cl ix t t')
    then show ?thesis
      by (simp add: main_not_ready[OF not_ready] trace_defs created_names_polls_end)
  next
    case (generate_failed f k cl ix t t' e)
    then show ?thesis
      by (simp add: main_generate_failed[OF generate_failed] trace_defs created_names_polls)
  next
    case (finished f k cl ix t t' g)
    then show ?thesis by (simp add: main_done[OF finished] trace_defs created_names_polls)
  qed
  with index_name_at_eq_iff[of "time_time env" "time_time env'"] show ?thesis by blast
qed

theorem index_name_per_whole_second_witness:
  "created_names (trace (snd (main (demo_remote (1003 / 10) polls_ready) demo_inputs Map.empty))) =
     [index_name_at (1003 / 10)]
   \<and> index_name_at (1003 / 10) \<noteq> index_name_at (1013 / 10)
   \<and> index_name_at (1003 / 10) = index_name_at (1007 / 10)"
proof -
  have t: "time_time (demo_remote (1003 / 10) polls_ready) = 1003 / 10"
    "time_time (demo_remote (1007 / 10) polls_ready) = 1007 / 10"
    "time_time (demo_remote (1013 / 10) polls_ready) = 1013 / 10"
    by (simp_all add: demo_remote_def)
  have p: "py_int (1003 / 10) = 100" "py_int (1007 / 10) = 100" "py_int (1013 / 10) = 101"
    by (simp_all add: py_int_def)
  show ?thesis
    using index_name_per_whole_second[where env="demo_remote (1003 / 10) polls_ready" and ss=Map.empty and ss'=Map.empty
        and env'="demo_remote (1007 / 10) polls_ready", OF demo_path(1-4)]
      index_name_per_whole_second[where env="demo_remote (1003 / 10) polls_ready" and ss=Map.empty and ss'=Map.empty
        and env'="demo_remote (1013 / 10) polls_ready", OF demo_path(1-4)]
    by (simp add: t p)
qed


lemma init_keys_dom: "''index_id'' \<in> dom (init_keys ss)" "''video_id'' \<in> dom (init_keys ss)"
  by (auto simp: init_keys_apply dom_def)

lemma init_keys_idem:
  "''index_id'' \<in> dom ss \<Longrightarrow> ''video_id'' \<in> dom ss \<Longrightarrow> init_keys ss = ss"
  by (rule ext) (auto simp: init_keys_apply)

lemma main_session_dom:
  "''index_id'' \<in> dom (session_state (snd (main env inp ss)))
   \<and> ''video_id'' \<in> dom (session_state (snd (main env inp ss)))"
proof (cases rule: run_cases[where inp=inp and env=env])
  case idle
  then show ?thesis by (simp add: main_idle init_keys_dom)
next
  case no_file
  then show ?thesis by (simp add: main_no_file init_keys_dom)
next
  case (no_key f)
  then show ?thesis by (simp add: main_no_key[OF no_key] init_keys_dom)
next
  case (no_client f k e)
  then show ?thesis by (simp add: main_no_client[OF no_client] init_keys_dom)
next
  case (index_failed f k cl e)
  then show ?thesis by (simp add: main_index_failed[OF index_failed] init_keys_dom)
next
  case (task_failed f k cl ix e)
  then show ?thesis by (simp add: main_task_failed[OF task_failed] init_keys_dom)
next
  case (waiting f k cl ix t)
  then show ?thesis by (simp add: main_waiting[OF waiting] init_keys_dom)
next
  case (poll_failed f k cl ix t e)
  then show ?thesis by (simp add: main_poll_failed[OF poll_failed] init_keys_dom)
next
  case (not_ready f k cl ix t t')
  then show ?thesis by (simp add: main_not_ready[OF not_ready] init_keys_dom)
next
  case (generate_failed f k cl ix t t' e)
  then show ?thesis by (simp add: main_generate_failed[OF generate_failed] init_keys_dom)
next
  case (finished f k cl ix t t' g)
  then show ?thesis by (simp add: main_done[OF finished] init_keys_dom)
qed

lemma main_session_after_index:
  assumes "analyze_clicked inp" "uploaded inp = Some f"
    "secrets env ''TWELVELABS_API_KEY'' = Some k" "twelvelabs_new env k = Inr cl"
    "index_create env cl (index_name_at (time_time env)) index_models [''thumbnail''] = Inr ix"
  shows "session_state (snd (main env inp ss)) ''index_id'' = Some (Some (idx_id ix))
       \<and> (fst (upload_video_and_wait env cl (idx_id ix) f s) = Some (Inl x) \<longrightarrow>
            session_state (snd (main env inp ss)) ''video_id'' = init_keys ss ''video_id'')"
proof (cases rule: run_cases[where inp=inp and env=env])
  case idle
  with assms show ?thesis by simp
next
  case no_file
  with assms show ?thesis by simp
next
  case (no_key f)
  with assms show ?thesis by simp
next
  case (no_client f k e)
  with assms show ?thesis by simp
next
  case (index_failed f k cl e)
  with assms show ?thesis by simp
next
  case (task_failed f' k' cl' ix' e)
  with assms have eq: "f' = f" "k' = k" "cl' = cl" "ix' = ix" by simp_all
  show ?thesis by (simp add: main_task_failed[OF task_failed] eq)
next
  case (waiting f' k' cl' ix' t)
  with assms have eq: "f' = f" "k' = k" "cl' = cl" "ix' = ix" by simp_all
  show ?thesis using waiting(6,7)
    by (simp add: main_waiting[OF waiting] eq upload_fst upload_try_fst)
next
  case (poll_failed f' k' cl' ix' t e)
  with assms have eq: "f' = f" "k' = k" "cl' = cl" "ix' = ix" by simp_all
  show ?thesis by (simp add: main_poll_failed[OF poll_failed] eq)
next
  case (not_ready f' k' cl' ix' t t')
  with assms have eq: "f' = f" "k' = k" "cl' = cl" "ix' = ix" by simp_all
  show ?thesis by (simp add: main_not_ready[OF not_ready] eq)
next
  case (generate_failed f' k' cl' ix' t t' e)
  with assms have eq: "f' = f" "k' = k" "cl' = cl" "ix' = ix" by simp_all
  show ?thesis using generate_failed(6-8)
    by (simp add: main_generate_failed[OF generate_failed] eq upload_fst upload_try_fst)
next
  case (finished f' k' cl' ix' t t' g)
  with assms have eq: "f' = f" "k' = k" "cl' = cl" "ix' = ix" by simp_all
  show ?thesis using finished(6-8)
    by (simp add: main_done[OF finished] eq upload_fst upload_try_fst)
qed

text \<open>
  Claim C10. Once the index is created, the store of the finished run binds
  \<^verbatim>\<open>index_id\<close> to the identifier of the new index, whatever happens afterwards; when the
  upload stage raises, \<^verbatim>\<open>video_id\<close> is what the run found (or \<^verbatim>\<open>None\<close> if the key was not
  there). The store of every run holds both keys, and a following run without a click
  returns it unchanged.
\<close>
theorem session_store_outlives_run:
  "(analyze_clicked inp \<and> uploaded inp = Some f \<and> secrets env ''TWELVELABS_API_KEY'' = Some k
      \<and> twelvelabs_new env k = Inr cl
      \<and> index_create env cl (index_name_at (time_time env)) index_models [''thumbnail''] = Inr ix \<longrightarrow>
      session_state (snd (main env inp ss)) ''index_id'' = Some (Some (idx_id ix))
      \<and> (fst (upload_video_and_wait env cl (idx_id ix) f s) = Some (Inl x) \<longrightarrow>
           session_state (snd (main env inp ss)) ''video_id'' =
             (case ss ''video_id'' of None \<Rightarrow> Some None | Some v \<Rightarrow> Some v)))
   \<and> ''index_id'' \<in> dom (session_state (snd (main env inp ss)))
   \<and> ''video_id'' \<in> dom (session_state (snd (main env inp ss)))
   \<and> (\<not> analyze_clicked inp' \<longrightarrow>
        session_state (snd (main env' inp' (session_state (snd (main env inp ss))))) =
          session_state (snd (main env inp ss)))"
proof -
  have a: "analyze_clicked inp \<and> uploaded inp = Some f \<and> secrets env ''TWELVELABS_API_KEY'' = Some k
      \<and> twelvelabs_new env k = Inr cl
      \<and> index_create env cl (index_name_at (time_time env)) index_models [''thumbnail''] = Inr ix \<longrightarrow>
      session_state (snd (main env inp ss)) ''index_id'' = Some (Some (idx_id ix))
      \<and> (fst (upload_video_and_wait env cl (idx_id ix) f s) = Some (Inl x) \<longrightarrow>
           session_state (snd (main env inp ss)) ''video_id'' =
             (case ss ''video_id'' of None \<Rightarrow> Some None | Some v \<Rightarrow> Some v))"
    using main_session_after_index[where inp=inp and f=f and env=env and k=k and cl=cl and ix=ix and ss=ss and s=s and x=x]
    by (auto simp: init_keys_apply split: option.splits)
  note b = main_session_dom[of env inp ss]
  have c: "\<not> analyze_clicked inp' \<longrightarrow>
        session_state (snd (main env' inp' (session_state (snd (main env inp ss))))) =
          session_state (snd (main env inp ss))"
    using b by (simp add: main_idle init_keys_idem)
  from a b c show ?thesis by blast
qed

theorem session_store_outlives_run_witness:
  "session_state (snd (main env_failed demo_inputs [''video_id'' \<mapsto> Some ''v0''])) ''index_id''
     = Some (Some ''i1'')
   \<and> session_state (snd (main env_failed demo_inputs [''video_id'' \<mapsto> Some ''v0''])) ''video_id''
     = Some (Some ''v0'')
   \<and> session_state (snd (main env_ready idle_inputs
        (session_state (snd (main env_failed demo_inputs [''video_id'' \<mapsto> Some ''v0'']))))) =
      session_state (snd (main env_failed demo_inputs [''video_id'' \<mapsto> Some ''v0'']))"
proof -
  have i: "\<not> analyze_clicked idle_inputs" by (simp add: idle_inputs_def)
  have u: "fst (upload_video_and_wait env_failed demo_client (idx_id (demo_index 100)) demo_file empty_state)
      = Some (Inl (RuntimeError (indexing_failed_msg ''failed'')))"
    using demo_path(6)[of 100 polls_failed] wait_failed[of 100]
    by (simp add: env_failed_def upload_fst upload_try_fst exn_msg_RuntimeError
          indexing_failed_msg_def demo_task_def)
  show ?thesis
    using i u demo_path(1,2) demo_path(3-6)[of 100 polls_failed]
      session_store_outlives_run[where env=env_failed and inp=demo_inputs and f=demo_file and k="''key''"
          and cl=demo_client and ix="demo_index 100" and ss="[''video_id'' \<mapsto> Some ''v0'']"
          and s=empty_state and x="RuntimeError (indexing_failed_msg ''failed'')"
          and inp'=idle_inputs and env'=env_ready]
    by (simp add: env_failed_def demo_index_def)
qed


end
